theory Spec2Isabelle
  imports Complex_Main "HOL-Library.Word"
begin

section \<open>Shared values\<close>

text \<open>
  Bytes of an \<^verbatim>\<open>ArrayBuffer\<close> are 8-bit words. Byte offsets and lengths are JavaScript
  numbers that only ever hold small non-negative integers here, so they are \<open>nat\<close>.
\<close>

type_synonym byte = "8 word"

text \<open>
  \<^verbatim>\<open>Cartesian3\<close> (Core/Cartesian3.js) is an object with three numeric components. The
  component type is a parameter: the packing code only moves components around, and the
  picking code measures distances over the reals.
\<close>

record 'a Cartesian3 =
  x :: 'a
  y :: 'a
  z :: 'a

text \<open>
  Modelled from the spec: \<^verbatim>\<open>Cartesian3.distance\<close> is not among the sources; the spec
  calls it the distance from the ray origin. It is the Euclidean distance, over the reals
  (the code computes it in double precision).
\<close>

definition distance :: "real Cartesian3 \<Rightarrow> real Cartesian3 \<Rightarrow> real" where
  "distance left right =
     sqrt ((x left - x right)\<^sup>2 + (y left - y right)\<^sup>2 + (z left - z right)\<^sup>2)"

record Ray =
  origin :: "real Cartesian3"
  direction :: "real Cartesian3"

section \<open>Composite3DTileContent\<close>

subsection \<open>Reading the container\<close>

datatype 'e error =
    RangeError
  | UnsupportedVersion nat
  | UnknownTileType "byte list"
  | ChildError 'e

definition sizeOfUint32 :: nat where
  "sizeOfUint32 = 4"

text \<open>\<^verbatim>\<open>view.getUint32(byteOffset, true)\<close>: little-endian; \<open>None\<close> is the \<^verbatim>\<open>RangeError\<close>
  thrown when the four bytes do not lie inside the buffer.\<close>

definition getUint32 :: "byte list \<Rightarrow> nat \<Rightarrow> nat option" where
  "getUint32 view byteOffset =
     (if byteOffset + 4 \<le> length view
      then Some (unat (view ! byteOffset)
                 + 256 * unat (view ! (byteOffset + 1))
                 + 65536 * unat (view ! (byteOffset + 2))
                 + 16777216 * unat (view ! (byteOffset + 3)))
      else None)"

text \<open>
  Modelled from the spec: \<^verbatim>\<open>getMagic\<close> (Core/getMagic.js) is not among the sources; the
  spec has it read the 4-byte tag at the child's start. The tag is kept as its bytes, and a
  tag that runs past the end of the buffer is cut short there.
\<close>

definition getMagic :: "byte list \<Rightarrow> nat \<Rightarrow> byte list" where
  "getMagic uint8Array byteOffset = take 4 (drop byteOffset uint8Array)"

text \<open>
  Modelled from the spec: \<^verbatim>\<open>Resource\<close> is not among the sources. Only its
  \<^verbatim>\<open>compositeIndex\<close> query parameter is read here, and \<^verbatim>\<open>getDerivedResource\<close> tags a
  child with its composite path.
\<close>

record Resource =
  url :: string
  compositeIndex :: "string option"

definition getDerivedResource :: "Resource \<Rightarrow> string \<Rightarrow> Resource" where
  "getDerivedResource resource ci = resource\<lparr>compositeIndex := Some ci\<rparr>"

text \<open>The decimal digits that a template literal prints for a loop index.\<close>

definition digitChar :: "nat \<Rightarrow> char" where
  "digitChar d = ''0123456789'' ! d"

fun decimal :: "nat \<Rightarrow> string" where
  "decimal n =
     (if n < 10 then [digitChar n] else decimal (n div 10) @ [digitChar (n mod 10)])"

declare decimal.simps [simp del]

text \<open>
  A content factory is called synchronously with the child resource, the whole buffer and
  the child's byte offset (tileset and tile are opaque back-references and left out). It
  either throws, or returns something that \<^verbatim>\<open>Promise.resolve\<close> turns into a promise: one
  that fulfils with a content (also when the factory returned the content itself) or one
  that rejects.
\<close>

datatype ('c, 'e) promise = Fulfilled 'c | Rejected 'e

datatype ('c, 'e) factoryResult = Returns "('c, 'e) promise" | Throws 'e

type_synonym ('c, 'e) contentFactory =
  "Resource \<Rightarrow> byte list \<Rightarrow> nat \<Rightarrow> ('c, 'e) factoryResult"

text \<open>One factory invocation, as the loop makes it: tile type, child resource, byte offset.\<close>

record factoryCall =
  callTileType :: "byte list"
  callResource :: Resource
  callByteOffset :: nat

text \<open>A private field \<^verbatim>\<open>_name\<close> of the source is the field \<open>p_name\<close> here.\<close>

record 'c Composite3DTileContent =
  p_resource :: Resource
  p_contents :: "'c list"
  p_ready :: bool

text \<open>The constructor: an undefined child list becomes the empty list.\<close>

definition Composite3DTileContent :: "Resource \<Rightarrow> 'c list option \<Rightarrow> 'c Composite3DTileContent" where
  "Composite3DTileContent resource contents =
     \<lparr>p_resource = resource,
      p_contents = (case contents of None \<Rightarrow> [] | Some cs \<Rightarrow> cs),
      p_ready = False\<rparr>"

text \<open>The prefix of the composite path: an existing \<^verbatim>\<open>compositeIndex\<close> and an
  underscore, or nothing.\<close>

definition compositePrefix :: "Resource \<Rightarrow> string" where
  "compositePrefix resource =
     (case compositeIndex resource of Some p \<Rightarrow> p @ ''_'' | None \<Rightarrow> [])"

text \<open>
  The loop over the children in \<^verbatim>\<open>fromTileType\<close>. \<open>calls\<close> records the factory
  invocations made so far, \<open>promises\<close> what they handed back (the source pre-sizes the
  array and fills it in index order). A throw leaves the loop at once.
\<close>

function childLoop ::
  "(byte list \<rightharpoonup> ('c, 'e) contentFactory) \<Rightarrow> Resource \<Rightarrow> string \<Rightarrow> byte list \<Rightarrow> nat \<Rightarrow>
   nat \<Rightarrow> nat \<Rightarrow> factoryCall list \<Rightarrow> ('c, 'e) promise list \<Rightarrow>
   factoryCall list \<times> ('e error + ('c, 'e) promise list)" where
  "childLoop factory resource prefix arrayBuffer tilesLength i byteOffset calls promises =
     (if i < tilesLength then
        (let tileType = getMagic arrayBuffer byteOffset in
         case getUint32 arrayBuffer (byteOffset + sizeOfUint32 * 2) of
           None \<Rightarrow> (calls, Inl RangeError)
         | Some tileByteLength \<Rightarrow>
            (let childResource = getDerivedResource resource (prefix @ decimal i) in
             case factory tileType of
               None \<Rightarrow> (calls, Inl (UnknownTileType tileType))
             | Some contentFactory \<Rightarrow>
                (let call = \<lparr>callTileType = tileType, callResource = childResource,
                             callByteOffset = byteOffset\<rparr> in
                 case contentFactory childResource arrayBuffer byteOffset of
                   Throws e \<Rightarrow> (calls @ [call], Inl (ChildError e))
                 | Returns p \<Rightarrow>
                     childLoop factory resource prefix arrayBuffer tilesLength (Suc i)
                       (byteOffset + tileByteLength) (calls @ [call]) (promises @ [p]))))
      else (calls, Inr promises))"
  by pat_completeness auto
termination
  by (relation "measure (\<lambda>(factory, resource, prefix, arrayBuffer, tilesLength, i, rest). tilesLength - i)")
     auto

declare childLoop.simps [simp del]

text \<open>
  \<^verbatim>\<open>Promise.all\<close> over the children's promises, once they have settled: the contents in
  order when every promise fulfils, otherwise a rejection (that of the first rejected
  promise in index order; which rejection arrives first in time is not modelled).
\<close>

fun promiseAll :: "('c, 'e) promise list \<Rightarrow> 'e error + 'c list" where
  "promiseAll [] = Inr []"
| "promiseAll (Fulfilled c # ps) =
     (case promiseAll ps of Inl e \<Rightarrow> Inl e | Inr cs \<Rightarrow> Inr (c # cs))"
| "promiseAll (Rejected e # ps) = Inl (ChildError e)"

text \<open>\<^verbatim>\<open>byteOffset ?? 0\<close>\<close>

definition orZero :: "nat option \<Rightarrow> nat" where
  "orZero byteOffset = (case byteOffset of None \<Rightarrow> 0 | Some b \<Rightarrow> b)"

text \<open>
  \<^verbatim>\<open>Composite3DTileContent.fromTileType\<close>. The function is \<^verbatim>\<open>async\<close>, so every throw
  is a rejection of the promise it returns: the result is the error or the composite,
  next to the factory invocations that were made.
\<close>

definition fromTileType ::
  "Resource \<Rightarrow> byte list \<Rightarrow> nat option \<Rightarrow> (byte list \<rightharpoonup> ('c, 'e) contentFactory) \<Rightarrow>
   factoryCall list \<times> ('e error + 'c Composite3DTileContent)" where
  "fromTileType resource arrayBuffer byteOffset0 factory =
     (let byteOffset = orZero byteOffset0;
          byteOffset = byteOffset + sizeOfUint32
      in case getUint32 arrayBuffer byteOffset of
           None \<Rightarrow> ([], Inl RangeError)
         | Some version \<Rightarrow>
             if version \<noteq> 1 then ([], Inl (UnsupportedVersion version))
             else
               (let byteOffset = byteOffset + sizeOfUint32;
                    byteOffset = byteOffset + sizeOfUint32
                in case getUint32 arrayBuffer byteOffset of
                     None \<Rightarrow> ([], Inl RangeError)
                   | Some tilesLength \<Rightarrow>
                      (let byteOffset = byteOffset + sizeOfUint32;
                           prefix = compositePrefix resource
                       in case childLoop factory resource prefix arrayBuffer tilesLength 0
                                 byteOffset [] [] of
                            (calls, Inl e) \<Rightarrow> (calls, Inl e)
                          | (calls, Inr promises) \<Rightarrow>
                              (case promiseAll promises of
                                 Inl e \<Rightarrow> (calls, Inl e)
                               | Inr innerContents \<Rightarrow>
                                   (calls, Inr (Composite3DTileContent resource
                                                  (Some innerContents)))))))"

text \<open>
  The container layout in the spec's words, to compare the loop with: the first child
  starts right after the 16-byte header, and child \<open>i + 1\<close> starts where child \<open>i\<close> starts
  plus the byte length child \<open>i\<close> declares 8 bytes into its own header. \<open>None\<close> when a
  declared length cannot be read.
\<close>

fun specChildOffset :: "byte list \<Rightarrow> nat \<Rightarrow> nat \<Rightarrow> nat option" where
  "specChildOffset arrayBuffer first 0 = Some first"
| "specChildOffset arrayBuffer first (Suc i) =
     (case specChildOffset arrayBuffer first i of
        None \<Rightarrow> None
      | Some off \<Rightarrow>
          (case getUint32 arrayBuffer (off + 8) of
             None \<Rightarrow> None
           | Some tileByteLength \<Rightarrow> Some (off + tileByteLength)))"

text \<open>The resource that child \<open>i\<close> is labelled with.\<close>

definition childResource :: "Resource \<Rightarrow> nat \<Rightarrow> Resource" where
  "childResource resource i = getDerivedResource resource (compositePrefix resource @ decimal i)"

text \<open>
  What the registry's factory does for the child at position \<open>i\<close> of that layout:
  \<open>None\<close> when the child's header cannot be read or its tag has no factory.
\<close>

definition childResult ::
  "(byte list \<rightharpoonup> ('c, 'e) contentFactory) \<Rightarrow> Resource \<Rightarrow> byte list \<Rightarrow> nat \<Rightarrow> nat \<Rightarrow>
   ('c, 'e) factoryResult option" where
  "childResult factory resource arrayBuffer first i =
     (case specChildOffset arrayBuffer first i of
        None \<Rightarrow> None
      | Some off \<Rightarrow>
          (case getUint32 arrayBuffer (off + 8) of
             None \<Rightarrow> None
           | Some tileByteLength \<Rightarrow>
               (case factory (getMagic arrayBuffer off) of
                  None \<Rightarrow> None
                | Some contentFactory \<Rightarrow>
                    Some (contentFactory (childResource resource i) arrayBuffer off))))"

text \<open>
  Two containers for the examples. Each child is a bare 12-byte header: magic, version 1,
  byte length 12. \<open>exampleComposite\<close> holds a \<^verbatim>\<open>b3dm\<close> and a \<^verbatim>\<open>pnts\<close> child;
  \<open>exampleUnknown\<close> holds \<^verbatim>\<open>b3dm\<close>, a child tagged \<^verbatim>\<open>xxxx\<close>, and \<^verbatim>\<open>pnts\<close>. The
  example registry knows \<^verbatim>\<open>b3dm\<close> and \<^verbatim>\<open>pnts\<close>; its factories fulfil with the byte
  offset they were given.
\<close>

definition exampleComposite :: "byte list" where
  "exampleComposite =
     [0x63, 0x6D, 0x70, 0x74,  1, 0, 0, 0,  40, 0, 0, 0,  2, 0, 0, 0,
      0x62, 0x33, 0x64, 0x6D,  1, 0, 0, 0,  12, 0, 0, 0,
      0x70, 0x6E, 0x74, 0x73,  1, 0, 0, 0,  12, 0, 0, 0]"

definition exampleUnknown :: "byte list" where
  "exampleUnknown =
     [0x63, 0x6D, 0x70, 0x74,  1, 0, 0, 0,  52, 0, 0, 0,  3, 0, 0, 0,
      0x62, 0x33, 0x64, 0x6D,  1, 0, 0, 0,  12, 0, 0, 0,
      0x78, 0x78, 0x78, 0x78,  1, 0, 0, 0,  12, 0, 0, 0,
      0x70, 0x6E, 0x74, 0x73,  1, 0, 0, 0,  12, 0, 0, 0]"

definition exampleFactory :: "byte list \<rightharpoonup> (nat, string) contentFactory" where
  "exampleFactory =
     [[0x62, 0x33, 0x64, 0x6D] \<mapsto> (\<lambda>resource arrayBuffer byteOffset. Returns (Fulfilled byteOffset)),
      [0x70, 0x6E, 0x74, 0x73] \<mapsto> (\<lambda>resource arrayBuffer byteOffset. Returns (Fulfilled byteOffset))]"

definition exampleResource :: Resource where
  "exampleResource = \<lparr>url = ''tile.cmpt'', compositeIndex = None\<rparr>"

subsection \<open>Updating and picking\<close>

text \<open>
  The children are polymorphic over one interface. It is passed in: \<open>cupdate\<close> is a
  child's \<^verbatim>\<open>update\<close> (it changes the child and may throw), \<open>cready\<close> reads its
  \<^verbatim>\<open>ready\<close> property. The loop of \<^verbatim>\<open>update\<close> carries the local \<^verbatim>\<open>ready\<close>; a throw
  leaves it with the children updated so far.
\<close>

fun updateLoop ::
  "('c \<Rightarrow> 'e option \<times> 'c) \<Rightarrow> ('c \<Rightarrow> bool) \<Rightarrow> 'c list \<Rightarrow> bool \<Rightarrow> 'e option \<times> 'c list \<times> bool" where
  "updateLoop cupdate cready [] ready = (None, [], ready)"
| "updateLoop cupdate cready (c # cs) ready =
     (case cupdate c of
        (Some e, c') \<Rightarrow> (Some e, c' # cs, ready)
      | (None, c') \<Rightarrow>
          (case updateLoop cupdate cready cs (ready \<and> cready c') of
             (err, cs', ready') \<Rightarrow> (err, c' # cs', ready')))"

definition update ::
  "('c \<Rightarrow> 'e option \<times> 'c) \<Rightarrow> ('c \<Rightarrow> bool) \<Rightarrow> 'c Composite3DTileContent \<Rightarrow>
   'e option \<times> 'c Composite3DTileContent" where
  "update cupdate cready this =
     (case updateLoop cupdate cready (p_contents this) True of
        (Some e, cs, ready) \<Rightarrow> (Some e, this\<lparr>p_contents := cs\<rparr>)
      | (None, cs, ready) \<Rightarrow>
          (None, if \<not> p_ready this \<and> ready then this\<lparr>p_contents := cs, p_ready := True\<rparr>
                 else this\<lparr>p_contents := cs\<rparr>))"

text \<open>A run of update calls, one per frame; the children's behaviour may differ from
  frame to frame, and a throw does not stop the caller from updating again.\<close>

fun updates ::
  "(('c \<Rightarrow> 'e option \<times> 'c) \<times> ('c \<Rightarrow> bool)) list \<Rightarrow> 'c Composite3DTileContent \<Rightarrow>
   'c Composite3DTileContent" where
  "updates [] this = this"
| "updates ((cupdate, cready) # frames) this = updates frames (snd (update cupdate cready this))"

text \<open>
  Picking writes into caller-supplied objects, so the \<^verbatim>\<open>Cartesian3\<close> objects live in a
  store and are handed around by reference. \<open>cpick\<close> is a child's \<^verbatim>\<open>pick\<close>; \<open>None\<close> is
  \<^verbatim>\<open>undefined\<close>. \<^verbatim>\<open>Number.POSITIVE_INFINITY\<close> is the \<open>None\<close> of \<open>minDistance\<close>.
\<close>

type_synonym ref = nat

record heap =
  cells :: "ref \<Rightarrow> real Cartesian3"
  nextRef :: ref

definition lessThanMin :: "real \<Rightarrow> real option \<Rightarrow> bool" where
  "lessThanMin d minDistance = (case minDistance of None \<Rightarrow> True | Some m \<Rightarrow> d < m)"

fun pickLoop ::
  "('c \<Rightarrow> Ray \<Rightarrow> ref option \<Rightarrow> heap \<Rightarrow> ref option \<times> heap) \<Rightarrow> Ray \<Rightarrow> ref option \<Rightarrow> 'c list \<Rightarrow>
   ref option \<Rightarrow> real option \<Rightarrow> heap \<Rightarrow> ref option \<times> real option \<times> heap" where
  "pickLoop cpick ray result [] intersection minDistance h = (intersection, minDistance, h)"
| "pickLoop cpick ray result (c # cs) intersection minDistance h =
     (case cpick c ray result h of
        (None, h') \<Rightarrow> pickLoop cpick ray result cs intersection minDistance h'
      | (Some candidate, h') \<Rightarrow>
          (let d = distance (origin ray) (cells h' candidate) in
           if lessThanMin d minDistance
           then pickLoop cpick ray result cs (Some candidate) (Some d) h'
           else pickLoop cpick ray result cs intersection minDistance h'))"

definition pick ::
  "('c \<Rightarrow> Ray \<Rightarrow> ref option \<Rightarrow> heap \<Rightarrow> ref option \<times> heap) \<Rightarrow> 'c Composite3DTileContent \<Rightarrow>
   Ray \<Rightarrow> ref option \<Rightarrow> heap \<Rightarrow> ref option \<times> heap" where
  "pick cpick this ray result h =
     (if \<not> p_ready this then (None, h)
      else
        (case pickLoop cpick ray result (p_contents this) None None h of
           (intersection, minDistance, h') \<Rightarrow>
             (case intersection of
                None \<Rightarrow> (None, h')
              | Some i \<Rightarrow> (result, h'))))"

text \<open>
  A child for the examples: \<open>Some p\<close> is a content whose surface the ray meets at \<open>p\<close>,
  \<open>None\<close> one that the ray misses. It follows the engine's result-parameter convention
  (as \<^verbatim>\<open>getValueInReferenceFrame\<close> in the sources documents it: the modified result
  parameter, or a new instance if the result parameter was not supplied).
\<close>

definition pickAt :: "real Cartesian3 option \<Rightarrow> Ray \<Rightarrow> ref option \<Rightarrow> heap \<Rightarrow> ref option \<times> heap" where
  "pickAt c ray result h =
     (case c of
        None \<Rightarrow> (None, h)
      | Some p \<Rightarrow>
          (case result of
             None \<Rightarrow> (Some (nextRef h), h\<lparr>cells := (cells h)(nextRef h := p), nextRef := Suc (nextRef h)\<rparr>)
           | Some r \<Rightarrow> (Some r, h\<lparr>cells := (cells h)(r := p)\<rparr>)))"

text \<open>Fixtures for the examples: a composite over one child that is not ready yet (a
  child is just its ready flag there), a ray from the origin along the x axis, and a store
  whose one object, at reference 0, is the caller's result object.\<close>

definition exampleNotReady :: "bool Composite3DTileContent" where
  "exampleNotReady = Composite3DTileContent exampleResource (Some [False])"

definition exampleRay :: Ray where
  "exampleRay = \<lparr>origin = \<lparr>x = 0, y = 0, z = 0\<rparr>, direction = \<lparr>x = 1, y = 0, z = 0\<rparr>\<rparr>"

definition exampleHeap :: heap where
  "exampleHeap = \<lparr>cells = (\<lambda>r. \<lparr>x = 0, y = 0, z = 0\<rparr>), nextRef = 1\<rparr>"

section \<open>Vector3DTileGeometry\<close>

subsection \<open>Values\<close>

text \<open>
  A \<^verbatim>\<open>Matrix4\<close> (Core/Matrix4.js) is an object with the sixteen numeric properties
  \<^verbatim>\<open>0\<close> to \<^verbatim>\<open>15\<close>; a \<^verbatim>\<open>BoundingSphere\<close> has a center and a radius, a \<^verbatim>\<open>Color\<close>
  four channels.
\<close>

record 'a Matrix4 =
  m0 :: 'a
  m1 :: 'a
  m2 :: 'a
  m3 :: 'a
  m4 :: 'a
  m5 :: 'a
  m6 :: 'a
  m7 :: 'a
  m8 :: 'a
  m9 :: 'a
  m10 :: 'a
  m11 :: 'a
  m12 :: 'a
  m13 :: 'a
  m14 :: 'a
  m15 :: 'a

record 'a BoundingSphere =
  bs_center :: "'a Cartesian3"
  bs_radius :: 'a

record 'a Color =
  red :: 'a
  green :: 'a
  blue :: 'a
  alpha :: 'a

datatype ClassificationType = TERRAIN | CESIUM_3D_TILE | BOTH

definition Cartesian3_packedLength :: nat where
  "Cartesian3_packedLength = 3"

definition Matrix4_packedLength :: nat where
  "Matrix4_packedLength = 16"

definition BoundingSphere_packedLength :: nat where
  "BoundingSphere_packedLength = 4"

definition Color_packedLength :: nat where
  "Color_packedLength = 4"

text \<open>
  Errors that reach a caller of the geometry content or its \<^verbatim>\<open>_error\<close> field: the
  engine's own, and \<open>Raised e\<close> for an error value \<open>e\<close> that a collaborator (the worker)
  produced.
\<close>

datatype 'e jsError = TypeError | RangeErr | DeveloperError | Raised 'e

subsection \<open>Packing the context\<close>

text \<open>
  Modelled from the spec: \<^verbatim>\<open>Cartesian3.pack\<close> and \<^verbatim>\<open>Matrix4.pack\<close> are not among the
  sources. The spec has the three components of the center followed by the sixteen of
  the matrix, in that fixed order. A write into a \<^verbatim>\<open>Float64Array\<close> past its end is
  ignored, as by \<open>list_update\<close>.
\<close>

definition Cartesian3_pack :: "'a Cartesian3 \<Rightarrow> 'a list \<Rightarrow> nat \<Rightarrow> 'a list" where
  "Cartesian3_pack v array startingIndex =
     array[startingIndex := x v, startingIndex + 1 := y v, startingIndex + 2 := z v]"

definition Matrix4_pack :: "'a Matrix4 \<Rightarrow> 'a list \<Rightarrow> nat \<Rightarrow> 'a list" where
  "Matrix4_pack v array startingIndex =
     array[startingIndex := m0 v, startingIndex + 1 := m1 v, startingIndex + 2 := m2 v,
           startingIndex + 3 := m3 v, startingIndex + 4 := m4 v, startingIndex + 5 := m5 v,
           startingIndex + 6 := m6 v, startingIndex + 7 := m7 v, startingIndex + 8 := m8 v,
           startingIndex + 9 := m9 v, startingIndex + 10 := m10 v, startingIndex + 11 := m11 v,
           startingIndex + 12 := m12 v, startingIndex + 13 := m13 v, startingIndex + 14 := m14 v,
           startingIndex + 15 := m15 v]"

text \<open>
  \<^verbatim>\<open>packBuffer\<close>, on the two fields of the content that it reads. A new
  \<^verbatim>\<open>Float64Array\<close> holds zeros. An undefined center or matrix makes the pack functions
  throw.
\<close>

definition packBuffer ::
  "('a::zero) Cartesian3 option \<Rightarrow> 'a Matrix4 option \<Rightarrow> 'e jsError + 'a list" where
  "packBuffer center modelMatrix =
     (let packedBuffer = replicate (Matrix4_packedLength + Cartesian3_packedLength) 0;
          offset = 0
      in case center of
           None \<Rightarrow> Inl TypeError
         | Some c \<Rightarrow>
             (let packedBuffer = Cartesian3_pack c packedBuffer offset;
                  offset = offset + Cartesian3_packedLength
              in case modelMatrix of
                   None \<Rightarrow> Inl TypeError
                 | Some m \<Rightarrow> Inr (Matrix4_pack m packedBuffer offset)))"

text \<open>
  Modelled from the spec: the function that unpacks the context on the worker's side
  (the worker module is not among the sources). The spec says that it reverses
  \<^verbatim>\<open>packContext\<close> exactly: the center from the first three numbers, the matrix from
  the sixteen after them. \<open>None\<close> when the buffer is shorter than that.
\<close>

definition Cartesian3_unpack :: "'a list \<Rightarrow> nat \<Rightarrow> 'a Cartesian3" where
  "Cartesian3_unpack array startingIndex =
     \<lparr>x = array ! startingIndex, y = array ! (startingIndex + 1), z = array ! (startingIndex + 2)\<rparr>"

definition Matrix4_unpack :: "'a list \<Rightarrow> nat \<Rightarrow> 'a Matrix4" where
  "Matrix4_unpack array startingIndex =
     \<lparr>m0 = array ! startingIndex, m1 = array ! (startingIndex + 1),
      m2 = array ! (startingIndex + 2), m3 = array ! (startingIndex + 3),
      m4 = array ! (startingIndex + 4), m5 = array ! (startingIndex + 5),
      m6 = array ! (startingIndex + 6), m7 = array ! (startingIndex + 7),
      m8 = array ! (startingIndex + 8), m9 = array ! (startingIndex + 9),
      m10 = array ! (startingIndex + 10), m11 = array ! (startingIndex + 11),
      m12 = array ! (startingIndex + 12), m13 = array ! (startingIndex + 13),
      m14 = array ! (startingIndex + 14), m15 = array ! (startingIndex + 15)\<rparr>"

definition unpackContext :: "'a list \<Rightarrow> ('a Cartesian3 \<times> 'a Matrix4) option" where
  "unpackContext packedBuffer =
     (if length packedBuffer < Cartesian3_packedLength + Matrix4_packedLength then None
      else Some (Cartesian3_unpack packedBuffer 0,
                 Matrix4_unpack packedBuffer Cartesian3_packedLength))"

subsection \<open>Unpacking the worker's result\<close>

text \<open>
  The numbers of the worker's \<^verbatim>\<open>Float64Array\<close> are reals here. Reading an element past
  the end gives \<^verbatim>\<open>undefined\<close>, which is \<open>None\<close>.
\<close>

definition element :: "real list \<Rightarrow> nat \<Rightarrow> real option" where
  "element packedBuffer i = (if i < length packedBuffer then Some (packedBuffer ! i) else None)"

text \<open>
  \<^verbatim>\<open>new Array(v)\<close>: a number must be an integer from 0 to \<open>2^32 - 1\<close> and gives an array
  of that many holes, any other number throws a \<^verbatim>\<open>RangeError\<close> (\<open>None\<close>);
  \<^verbatim>\<open>undefined\<close> gives the one-element array that holds it.
\<close>

definition newArrayLength :: "real option \<Rightarrow> nat option" where
  "newArrayLength v =
     (case v of
        None \<Rightarrow> Some 1
      | Some r \<Rightarrow>
          if 0 \<le> r \<and> r < 2 ^ 32 \<and> r = of_int \<lfloor>r\<rfloor> then Some (nat \<lfloor>r\<rfloor>) else None)"

text \<open>How often \<^verbatim>\<open>for (let i = 0; i < v; ++i)\<close> runs: never when \<open>v\<close> is undefined.\<close>

definition iterations :: "real option \<Rightarrow> nat" where
  "iterations v = (case v of None \<Rightarrow> 0 | Some r \<Rightarrow> nat \<lceil>r\<rceil>)"

text \<open>
  Modelled from the spec: \<^verbatim>\<open>BoundingSphere.unpack\<close> and \<^verbatim>\<open>Color.unpack\<close> are not among
  the sources; the spec has fixed-size records. They read four numbers each, and a
  number read past the end is undefined.
\<close>

definition BoundingSphere_unpack :: "real list \<Rightarrow> nat \<Rightarrow> real option BoundingSphere" where
  "BoundingSphere_unpack array startingIndex =
     \<lparr>bs_center = \<lparr>x = element array startingIndex, y = element array (startingIndex + 1),
                   z = element array (startingIndex + 2)\<rparr>,
      bs_radius = element array (startingIndex + 3)\<rparr>"

definition Color_unpack :: "real list \<Rightarrow> nat \<Rightarrow> real option Color" where
  "Color_unpack array startingIndex =
     \<lparr>red = element array startingIndex, green = element array (startingIndex + 1),
      blue = element array (startingIndex + 2), alpha = element array (startingIndex + 3)\<rparr>"

record Vector3DTileBatch =
  b_color :: "real option Color"
  b_offset :: "real option"
  b_count :: "real option"
  b_batchIds :: "real option list"

text \<open>The first loop of \<^verbatim>\<open>unpackBuffer\<close>, \<open>n\<close> iterations from \<open>offset\<close> on.\<close>

fun unpackBoundingVolumes :: "real list \<Rightarrow> nat \<Rightarrow> nat \<Rightarrow> real option BoundingSphere list" where
  "unpackBoundingVolumes packedBuffer offset 0 = []"
| "unpackBoundingVolumes packedBuffer offset (Suc n) =
     BoundingSphere_unpack packedBuffer offset
       # unpackBoundingVolumes packedBuffer (offset + BoundingSphere_packedLength) n"

text \<open>
  The second loop, \<open>n\<close> iterations from \<open>offset\<close> on: the batches unpacked before it ends
  or before \<^verbatim>\<open>new Array(length)\<close> throws, and whether it threw.
\<close>

fun unpackBatches :: "real list \<Rightarrow> nat \<Rightarrow> nat \<Rightarrow> Vector3DTileBatch list \<times> bool" where
  "unpackBatches packedBuffer offset 0 = ([], False)"
| "unpackBatches packedBuffer offset (Suc n) =
     (let color = Color_unpack packedBuffer offset;
          offset = offset + Color_packedLength;
          indexOffset = element packedBuffer offset;
          count = element packedBuffer (offset + 1);
          len = element packedBuffer (offset + 2);
          offset = offset + 3
      in case newArrayLength len of
           None \<Rightarrow> ([], True)
         | Some arrayLength \<Rightarrow>
             (let filled = map (\<lambda>k. element packedBuffer (offset + k)) [0..<iterations len];
                  batchIds = filled @ replicate (arrayLength - iterations len) None;
                  batch = \<lparr>b_color = color, b_offset = indexOffset, b_count = count,
                           b_batchIds = batchIds\<rparr>
              in case unpackBatches packedBuffer (offset + iterations len) n of
                   (batches, threw) \<Rightarrow> (batch # batches, threw)))"

text \<open>
  What \<^verbatim>\<open>unpackBuffer\<close> leaves behind: the two fields of the content that it assigns
  (an array element that was never assigned is \<open>None\<close>), and either the
  \<^verbatim>\<open>indicesBytesPerElement\<close> that it returns or the \<^verbatim>\<open>RangeError\<close> that it throws.
\<close>

record unpacked =
  u_boundingVolumes :: "real option BoundingSphere option list option"
  u_batchedIndices :: "Vector3DTileBatch option list option"
  u_result :: "real option option"

definition unpackBuffer :: "real list \<Rightarrow> unpacked" where
  "unpackBuffer packedBuffer =
     (let indicesBytesPerElement = element packedBuffer 0;
          numBVS = element packedBuffer 1;
          offset = 2
      in case newArrayLength numBVS of
           None \<Rightarrow> \<lparr>u_boundingVolumes = None, u_batchedIndices = None, u_result = None\<rparr>
         | Some bvsLength \<Rightarrow>
             (let bvs = map Some (unpackBoundingVolumes packedBuffer offset (iterations numBVS))
                          @ replicate (bvsLength - iterations numBVS) None;
                  offset = offset + iterations numBVS * BoundingSphere_packedLength;
                  numBatchedIndices = element packedBuffer offset;
                  offset = offset + 1
              in case newArrayLength numBatchedIndices of
                   None \<Rightarrow> \<lparr>u_boundingVolumes = Some bvs, u_batchedIndices = None, u_result = None\<rparr>
                 | Some bisLength \<Rightarrow>
                     (case unpackBatches packedBuffer offset (iterations numBatchedIndices) of
                        (batches, threw) \<Rightarrow>
                          \<lparr>u_boundingVolumes = Some bvs,
                           u_batchedIndices =
                             Some (map Some batches @ replicate (bisLength - length batches) None),
                           u_result = (if threw then None else Some indicesBytesPerElement)\<rparr>)))"

subsection \<open>Typed arrays over shared buffers\<close>

text \<open>
  The shape arrays that a content is constructed with are views on \<^verbatim>\<open>ArrayBuffer\<close>s that
  other code may hold too, so the buffers live in a store and a typed array names its
  buffer. \<^verbatim>\<open>slice()\<close> copies the viewed bytes into a buffer of its own.
\<close>

type_synonym bufId = nat

record TypedArray =
  ta_buffer :: bufId
  ta_byteOffset :: nat
  ta_length :: nat
  ta_bytesPerElement :: nat

record store =
  buffers :: "bufId \<Rightarrow> byte list"
  nextBuffer :: bufId

definition slice :: "TypedArray \<Rightarrow> store \<Rightarrow> TypedArray \<times> store" where
  "slice a s =
     (let bytes = take (ta_length a * ta_bytesPerElement a)
                    (drop (ta_byteOffset a) (buffers s (ta_buffer a)))
      in (\<lparr>ta_buffer = nextBuffer s, ta_byteOffset = 0, ta_length = ta_length a,
           ta_bytesPerElement = ta_bytesPerElement a\<rparr>,
          s\<lparr>buffers := (buffers s)(nextBuffer s := bytes), nextBuffer := Suc (nextBuffer s)\<rparr>))"

text \<open>\<^verbatim>\<open>v.slice()\<close> on a variable that may hold \<^verbatim>\<open>undefined\<close>.\<close>

definition sliceOf :: "TypedArray option \<Rightarrow> store \<Rightarrow> 'e jsError + TypedArray \<times> store" where
  "sliceOf v s = (case v of None \<Rightarrow> Inl TypeError | Some a \<Rightarrow> Inr (slice a s))"

text \<open>
  A typed array made over a buffer that the worker returned: the buffer is the
  content's own, so the view carries its bytes. The constructor throws a
  \<^verbatim>\<open>RangeError\<close> (\<open>None\<close>) unless the byte length is a multiple of the element size.
\<close>

record view =
  v_bytesPerElement :: nat
  v_bytes :: "byte list"

definition newView :: "nat \<Rightarrow> byte list \<Rightarrow> view option" where
  "newView bytesPerElement bytes =
     (if length bytes mod bytesPerElement = 0
      then Some \<lparr>v_bytesPerElement = bytesPerElement, v_bytes = bytes\<rparr>
      else None)"

subsection \<open>The content\<close>

text \<open>
  Modelled from the spec: the batch table is not among the sources; the spec has
  \<^verbatim>\<open>getColor(batchId)\<close> give a colour. A batch table is the function from a batch id to
  that colour as \<^verbatim>\<open>toRgba()\<close> packs it.
\<close>

type_synonym batchTable = "nat \<Rightarrow> 32 word"

text \<open>
  Modelled from the spec: \<^verbatim>\<open>Vector3DTilePrimitive\<close> is not among the sources. The
  primitive is what it was constructed from (but for \<^verbatim>\<open>pickObject\<close>, a reference back
  to the content), the three settings that \<^verbatim>\<open>update\<close> assigns, and the number of
  frames it was updated for.
\<close>

record 'a Vector3DTilePrimitive =
  pr_batchTable :: "batchTable option"
  pr_positions :: "view option"
  pr_batchIds :: "view option"
  pr_vertexBatchIds :: "view option"
  pr_indices :: "view option"
  pr_indexOffsets :: "view option"
  pr_indexCounts :: "view option"
  pr_batchedIndices :: "Vector3DTileBatch option list option"
  pr_boundingVolume :: "'a BoundingSphere option"
  pr_boundingVolumes :: "real option BoundingSphere option list option"
  pr_center :: "'a Cartesian3 option"
  pr_debugWireframe :: bool
  pr_forceRebatch :: bool
  pr_classificationType :: ClassificationType
  pr_frames :: nat

text \<open>
  The fields of the content; \<^verbatim>\<open>_name\<close> is \<open>g_name\<close>. \<open>g_sphere\<close> is the property
  \<^verbatim>\<open>_sphere\<close> that \<^verbatim>\<open>createPrimitive\<close> assigns. A promise is named by the number of
  the decode task that it belongs to.

  Modelled from the spec: \<^verbatim>\<open>destroyObject\<close> is not among the sources; the spec has
  \<^verbatim>\<open>destroy\<close> mark the content destroyed, has the mark consulted when a decode result
  arrives, and makes every operation but the destroyed-check a programmer error from
  then on. \<open>g_destroyed\<close> is that mark.
\<close>

record ('a, 'e) Vector3DTileGeometry =
  g_boxes :: "TypedArray option"
  g_boxBatchIds :: "TypedArray option"
  g_cylinders :: "TypedArray option"
  g_cylinderBatchIds :: "TypedArray option"
  g_ellipsoids :: "TypedArray option"
  g_ellipsoidBatchIds :: "TypedArray option"
  g_spheres :: "TypedArray option"
  g_sphereBatchIds :: "TypedArray option"
  g_sphere :: "TypedArray option"
  g_modelMatrix :: "'a Matrix4 option"
  g_batchTable :: "batchTable option"
  g_boundingVolume :: "'a BoundingSphere option"
  g_center :: "'a Cartesian3 option"
  g_boundingVolumes :: "real option BoundingSphere option list option"
  g_batchedIndices :: "Vector3DTileBatch option list option"
  g_indices :: "view option"
  g_indexOffsets :: "view option"
  g_indexCounts :: "view option"
  g_positions :: "view option"
  g_vertexBatchIds :: "view option"
  g_batchIds :: "view option"
  g_batchTableColors :: "32 word list option"
  g_packedBuffer :: "'a list option"
  g_ready :: bool
  g_promise :: "nat option"
  g_error :: "'e jsError option"
  g_verticesPromise :: "nat option"
  g_primitive :: "'a Vector3DTilePrimitive option"
  debugWireframe :: bool
  forceRebatch :: bool
  classificationType :: ClassificationType
  g_destroyed :: bool

record 'a options =
  o_boxes :: "TypedArray option"
  o_boxBatchIds :: "TypedArray option"
  o_cylinders :: "TypedArray option"
  o_cylinderBatchIds :: "TypedArray option"
  o_ellipsoids :: "TypedArray option"
  o_ellipsoidBatchIds :: "TypedArray option"
  o_spheres :: "TypedArray option"
  o_sphereBatchIds :: "TypedArray option"
  o_center :: "'a Cartesian3 option"
  o_modelMatrix :: "'a Matrix4"
  o_batchTable :: batchTable
  o_boundingVolume :: "'a BoundingSphere option"

text \<open>The constructor.\<close>

definition Vector3DTileGeometry :: "('a::zero) options \<Rightarrow> ('a, 'e) Vector3DTileGeometry" where
  "Vector3DTileGeometry opts =
     \<lparr>g_boxes = o_boxes opts,
      g_boxBatchIds = o_boxBatchIds opts,
      g_cylinders = o_cylinders opts,
      g_cylinderBatchIds = o_cylinderBatchIds opts,
      g_ellipsoids = o_ellipsoids opts,
      g_ellipsoidBatchIds = o_ellipsoidBatchIds opts,
      g_spheres = o_spheres opts,
      g_sphereBatchIds = o_sphereBatchIds opts,
      g_sphere = None,
      g_modelMatrix = Some (o_modelMatrix opts),
      g_batchTable = Some (o_batchTable opts),
      g_boundingVolume = o_boundingVolume opts,
      g_center =
        (case o_center opts of
           Some c \<Rightarrow> Some c
         | None \<Rightarrow>
             (case o_boundingVolume opts of
                Some bv \<Rightarrow> Some (bs_center bv)
              | None \<Rightarrow> Some \<lparr>x = 0, y = 0, z = 0\<rparr>)),
      g_boundingVolumes = None,
      g_batchedIndices = None,
      g_indices = None,
      g_indexOffsets = None,
      g_indexCounts = None,
      g_positions = None,
      g_vertexBatchIds = None,
      g_batchIds = None,
      g_batchTableColors = None,
      g_packedBuffer = None,
      g_ready = False,
      g_promise = None,
      g_error = None,
      g_verticesPromise = None,
      g_primitive = None,
      debugWireframe = False,
      forceRebatch = False,
      classificationType = BOTH,
      g_destroyed = False\<rparr>"

definition isDestroyed :: "('a, 'e) Vector3DTileGeometry \<Rightarrow> bool" where
  "isDestroyed this = g_destroyed this"

subsection \<open>The decode request\<close>

text \<open>
  What \<^verbatim>\<open>createPrimitive\<close> hands to \<^verbatim>\<open>scheduleTask\<close>: the parameters, and the list
  of buffers to transfer. The colour table and the packed context are arrays that
  \<^verbatim>\<open>createPrimitive\<close> has just made; their buffers are given by their contents.
\<close>

record 'a parameters =
  q_boxes :: "bufId option"
  q_boxBatchIds :: "bufId option"
  q_cylinders :: "bufId option"
  q_cylinderBatchIds :: "bufId option"
  q_ellipsoids :: "bufId option"
  q_ellipsoidBatchIds :: "bufId option"
  q_spheres :: "bufId option"
  q_sphereBatchIds :: "bufId option"
  q_batchTableColors :: "32 word list"
  q_packedBuffer :: "'a list"

datatype 'a transferable = Buffer bufId | ColorsBuffer "32 word list" | PackedBuffer "'a list"

record 'a request =
  parameters :: "'a parameters"
  transferableObjects :: "'a transferable list"

text \<open>
  Modelled from the spec: \<^verbatim>\<open>TaskProcessor\<close> is not among the sources. Its
  \<^verbatim>\<open>scheduleTask\<close> returns a promise, or \<^verbatim>\<open>undefined\<close> when its capacity is exceeded;
  the processor of this module is created with capacity 5. It is shared, so the number
  of its active tasks at the time of a call is an input. \<open>tasks\<close> are the requests that
  this content has had accepted so far, each with whether its promise is still pending;
  the promise of a request is named by the request's position.
\<close>

definition maximumActiveTasks :: nat where
  "maximumActiveTasks = 5"

type_synonym 'a tasks = "('a request \<times> bool) list"

definition scheduleTask :: "nat \<Rightarrow> 'a request \<Rightarrow> 'a tasks \<Rightarrow> nat option \<times> 'a tasks" where
  "scheduleTask activeTasks req ts =
     (if activeTasks \<ge> maximumActiveTasks then (None, ts)
      else (Some (length ts), ts @ [(req, True)]))"

text \<open>
  The local variables of \<^verbatim>\<open>createPrimitive\<close> that the copying section assigns, next to
  the content and the buffer store it works on. \<open>l_length\<close> is the local \<^verbatim>\<open>length\<close>.
\<close>

record ('a, 'e) locals =
  boxes :: "TypedArray option"
  boxBatchIds :: "TypedArray option"
  cylinders :: "TypedArray option"
  cylinderBatchIds :: "TypedArray option"
  ellipsoids :: "TypedArray option"
  ellipsoidBatchIds :: "TypedArray option"
  spheres :: "TypedArray option"
  sphereBatchIds :: "TypedArray option"
  l_length :: nat
  geometries :: "('a, 'e) Vector3DTileGeometry"
  arrayBuffers :: store

text \<open>The four blocks of the copying section, each as the source has it. A throw leaves
  with what was assigned before it.\<close>

definition copyBoxes :: "('a, 'e) locals \<Rightarrow> 'e jsError \<times> ('a, 'e) locals + ('a, 'e) locals" where
  "copyBoxes l =
     (if g_boxes (geometries l) \<noteq> None then
        (case sliceOf (boxes l) (arrayBuffers l) of
           Inl e \<Rightarrow> Inl (e, l)
         | Inr (a, s) \<Rightarrow>
            (let l = l\<lparr>boxes := Some a,
                        geometries := (geometries l)\<lparr>g_boxes := Some a\<rparr>,
                        arrayBuffers := s\<rparr>
             in case sliceOf (boxBatchIds l) (arrayBuffers l) of
                  Inl e \<Rightarrow> Inl (e, l)
                | Inr (b, s) \<Rightarrow>
                    Inr (l\<lparr>boxBatchIds := Some b,
                           geometries := (geometries l)\<lparr>g_boxBatchIds := Some b\<rparr>,
                           arrayBuffers := s,
                           l_length := l_length l + ta_length b\<rparr>)))
      else Inr l)"

definition copyCylinders :: "('a, 'e) locals \<Rightarrow> 'e jsError \<times> ('a, 'e) locals + ('a, 'e) locals" where
  "copyCylinders l =
     (if g_cylinders (geometries l) \<noteq> None then
        (case sliceOf (cylinders l) (arrayBuffers l) of
           Inl e \<Rightarrow> Inl (e, l)
         | Inr (a, s) \<Rightarrow>
            (let l = l\<lparr>cylinders := Some a,
                        geometries := (geometries l)\<lparr>g_cylinders := Some a\<rparr>,
                        arrayBuffers := s\<rparr>
             in case sliceOf (cylinderBatchIds l) (arrayBuffers l) of
                  Inl e \<Rightarrow> Inl (e, l)
                | Inr (b, s) \<Rightarrow>
                    Inr (l\<lparr>cylinderBatchIds := Some b,
                           geometries := (geometries l)\<lparr>g_cylinderBatchIds := Some b\<rparr>,
                           arrayBuffers := s,
                           l_length := l_length l + ta_length b\<rparr>)))
      else Inr l)"

definition copyEllipsoids :: "('a, 'e) locals \<Rightarrow> 'e jsError \<times> ('a, 'e) locals + ('a, 'e) locals" where
  "copyEllipsoids l =
     (if g_ellipsoids (geometries l) \<noteq> None then
        (case sliceOf (ellipsoids l) (arrayBuffers l) of
           Inl e \<Rightarrow> Inl (e, l)
         | Inr (a, s) \<Rightarrow>
            (let l = l\<lparr>ellipsoids := Some a,
                        geometries := (geometries l)\<lparr>g_ellipsoids := Some a\<rparr>,
                        arrayBuffers := s\<rparr>
             in case sliceOf (ellipsoidBatchIds l) (arrayBuffers l) of
                  Inl e \<Rightarrow> Inl (e, l)
                | Inr (b, s) \<Rightarrow>
                    Inr (l\<lparr>ellipsoidBatchIds := Some b,
                           geometries := (geometries l)\<lparr>g_ellipsoidBatchIds := Some b\<rparr>,
                           arrayBuffers := s,
                           l_length := l_length l + ta_length b\<rparr>)))
      else Inr l)"

text \<open>The block for the spheres assigns the copy to \<^verbatim>\<open>geometries._sphere\<close>.\<close>

definition copySpheres :: "('a, 'e) locals \<Rightarrow> 'e jsError \<times> ('a, 'e) locals + ('a, 'e) locals" where
  "copySpheres l =
     (if g_spheres (geometries l) \<noteq> None then
        (case sliceOf (spheres l) (arrayBuffers l) of
           Inl e \<Rightarrow> Inl (e, l)
         | Inr (a, s) \<Rightarrow>
            (let l = l\<lparr>spheres := Some a,
                        geometries := (geometries l)\<lparr>g_sphere := Some a\<rparr>,
                        arrayBuffers := s\<rparr>
             in case sliceOf (sphereBatchIds l) (arrayBuffers l) of
                  Inl e \<Rightarrow> Inl (e, l)
                | Inr (b, s) \<Rightarrow>
                    Inr (l\<lparr>sphereBatchIds := Some b,
                           geometries := (geometries l)\<lparr>g_sphereBatchIds := Some b\<rparr>,
                           arrayBuffers := s,
                           l_length := l_length l + ta_length b\<rparr>)))
      else Inr l)"

definition andThen :: "'x + 's \<Rightarrow> ('s \<Rightarrow> 'x + 's) \<Rightarrow> 'x + 's" where
  "andThen r f = (case r of Inl e \<Rightarrow> Inl e | Inr s \<Rightarrow> f s)"

text \<open>
  The colour table: a new \<^verbatim>\<open>Uint32Array(length)\<close> is assigned to the content, then
  filled from the batch table, index by index. Without a batch table the first
  \<^verbatim>\<open>getColor\<close> throws.
\<close>

definition colorTable :: "('a, 'e) locals \<Rightarrow> 'e jsError \<times> ('a, 'e) locals + ('a, 'e) locals" where
  "colorTable l =
     (case g_batchTable (geometries l) of
        None \<Rightarrow>
          (let l' = l\<lparr>geometries := (geometries l)\<lparr>g_batchTableColors := Some (replicate (l_length l) 0)\<rparr>\<rparr>
           in if l_length l = 0 then Inr l' else Inl (TypeError, l'))
      | Some batchTable \<Rightarrow>
          Inr (l\<lparr>geometries :=
                   (geometries l)\<lparr>g_batchTableColors := Some (map batchTable [0..<l_length l])\<rparr>\<rparr>))"

definition packContext :: "('a::zero, 'e) locals \<Rightarrow> 'e jsError \<times> ('a, 'e) locals + ('a, 'e) locals" where
  "packContext l =
     (case packBuffer (g_center (geometries l)) (g_modelMatrix (geometries l)) of
        Inl e \<Rightarrow> Inl (e, l)
      | Inr packedBuffer \<Rightarrow>
          Inr (l\<lparr>geometries := (geometries l)\<lparr>g_packedBuffer := Some packedBuffer\<rparr>\<rparr>))"

text \<open>The section under \<^verbatim>\<open>if (!defined(batchTableColors))\<close>.\<close>

definition copyAndPack :: "('a::zero, 'e) locals \<Rightarrow> 'e jsError \<times> ('a, 'e) locals + ('a, 'e) locals" where
  "copyAndPack l =
     andThen (andThen (andThen (andThen (andThen (copyBoxes (l\<lparr>l_length := 0\<rparr>)) copyCylinders)
       copyEllipsoids) copySpheres) colorTable) packContext"

text \<open>
  The transfer list and the parameters. \<^verbatim>\<open>v.buffer\<close> on an undefined \<open>v\<close> throws; the
  transfer list is built first, so that is where it shows.
\<close>

definition shapeBuffers :: "TypedArray option \<Rightarrow> TypedArray option \<Rightarrow> bufId list option" where
  "shapeBuffers shape batchIds =
     (case shape of
        None \<Rightarrow> Some []
      | Some a \<Rightarrow> (case batchIds of None \<Rightarrow> None | Some b \<Rightarrow> Some [ta_buffer a, ta_buffer b]))"

definition batchIdsBuffer :: "TypedArray option \<Rightarrow> TypedArray option \<Rightarrow> bufId option" where
  "batchIdsBuffer shape batchIds =
     (case shape of None \<Rightarrow> None | Some a \<Rightarrow> map_option ta_buffer batchIds)"

definition buildRequest ::
  "('a, 'e) locals \<Rightarrow> 32 word list option \<Rightarrow> 'a list option \<Rightarrow> 'a request option" where
  "buildRequest l batchTableColors packedBuffer =
     (case shapeBuffers (boxes l) (boxBatchIds l) of None \<Rightarrow> None | Some t1 \<Rightarrow>
     (case shapeBuffers (cylinders l) (cylinderBatchIds l) of None \<Rightarrow> None | Some t2 \<Rightarrow>
     (case shapeBuffers (ellipsoids l) (ellipsoidBatchIds l) of None \<Rightarrow> None | Some t3 \<Rightarrow>
     (case shapeBuffers (spheres l) (sphereBatchIds l) of None \<Rightarrow> None | Some t4 \<Rightarrow>
     (case batchTableColors of None \<Rightarrow> None | Some colors \<Rightarrow>
     (case packedBuffer of None \<Rightarrow> None | Some packed \<Rightarrow>
        Some \<lparr>parameters =
                \<lparr>q_boxes = map_option ta_buffer (boxes l),
                 q_boxBatchIds = batchIdsBuffer (boxes l) (boxBatchIds l),
                 q_cylinders = map_option ta_buffer (cylinders l),
                 q_cylinderBatchIds = batchIdsBuffer (cylinders l) (cylinderBatchIds l),
                 q_ellipsoids = map_option ta_buffer (ellipsoids l),
                 q_ellipsoidBatchIds = batchIdsBuffer (ellipsoids l) (ellipsoidBatchIds l),
                 q_spheres = map_option ta_buffer (spheres l),
                 q_sphereBatchIds = batchIdsBuffer (spheres l) (sphereBatchIds l),
                 q_batchTableColors = colors,
                 q_packedBuffer = packed\<rparr>,
              transferableObjects =
                map Buffer (t1 @ t2 @ t3 @ t4)
                  @ [ColorsBuffer colors, PackedBuffer packed]\<rparr>))))))"

subsection \<open>Creating the primitive\<close>

text \<open>
  The world of one content: the content, the store of shared buffers, the decode
  tasks that the task processor has accepted from it, and how often it has called
  \<^verbatim>\<open>scheduleTask\<close>.
\<close>

record ('a, 'e) world =
  w_content :: "('a, 'e) Vector3DTileGeometry"
  w_store :: store
  w_tasks :: "'a tasks"
  w_scheduleCalls :: nat

definition newWorld :: "('a::zero) options \<Rightarrow> store \<Rightarrow> ('a, 'e) world" where
  "newWorld opts s =
     \<lparr>w_content = Vector3DTileGeometry opts, w_store = s, w_tasks = [], w_scheduleCalls = 0\<rparr>"

text \<open>
  \<^verbatim>\<open>createPrimitive\<close>, called while the task processor has \<open>activeTasks\<close> tasks running.
  It gives the error it throws, if any, the promise it returns, if any, and the world
  after it. The locals \<^verbatim>\<open>batchTableColors\<close> and \<^verbatim>\<open>packedBuffer\<close> always equal the
  fields they were read from or assigned with, so the fields stand for them. The
  returned promise is the \<^verbatim>\<open>then\<close>/\<^verbatim>\<open>catch\<close> chain on the task's promise; its handlers
  are \<open>onFulfilled\<close> and \<open>onRejected\<close> below.
\<close>

definition createPrimitive ::
  "nat \<Rightarrow> ('a::zero, 'e) world \<Rightarrow> 'e jsError option \<times> nat option \<times> ('a, 'e) world" where
  "createPrimitive activeTasks w =
     (let g = w_content w in
      if g_primitive g \<noteq> None then (None, None, w)
      else if g_verticesPromise g = None then
        (let l = \<lparr>boxes = g_boxes g, boxBatchIds = g_boxBatchIds g,
                  cylinders = g_cylinders g, cylinderBatchIds = g_cylinderBatchIds g,
                  ellipsoids = g_ellipsoids g, ellipsoidBatchIds = g_ellipsoidBatchIds g,
                  spheres = g_spheres g, sphereBatchIds = g_sphereBatchIds g,
                  l_length = 0, geometries = g, arrayBuffers = w_store w\<rparr>
         in case (if g_batchTableColors g = None then copyAndPack l else Inr l) of
              Inl (e, l') \<Rightarrow>
                (Some e, None, w\<lparr>w_content := geometries l', w_store := arrayBuffers l'\<rparr>)
            | Inr l' \<Rightarrow>
                (case buildRequest l' (g_batchTableColors (geometries l'))
                        (g_packedBuffer (geometries l')) of
                   None \<Rightarrow>
                     (Some TypeError, None,
                      w\<lparr>w_content := geometries l', w_store := arrayBuffers l'\<rparr>)
                 | Some req \<Rightarrow>
                     (case scheduleTask activeTasks req (w_tasks w) of
                        (verticesPromise, ts) \<Rightarrow>
                          (None, verticesPromise,
                           w\<lparr>w_content := (geometries l')\<lparr>g_verticesPromise := verticesPromise\<rparr>,
                             w_store := arrayBuffers l',
                             w_tasks := ts,
                             w_scheduleCalls := Suc (w_scheduleCalls w)\<rparr>))))
      else (None, None, w))"

definition finishPrimitive :: "('a, 'e) Vector3DTileGeometry \<Rightarrow> ('a, 'e) Vector3DTileGeometry" where
  "finishPrimitive g =
     (if g_primitive g = None then
        g\<lparr>g_primitive :=
             Some \<lparr>pr_batchTable = g_batchTable g,
                   pr_positions = g_positions g,
                   pr_batchIds = g_batchIds g,
                   pr_vertexBatchIds = g_vertexBatchIds g,
                   pr_indices = g_indices g,
                   pr_indexOffsets = g_indexOffsets g,
                   pr_indexCounts = g_indexCounts g,
                   pr_batchedIndices = g_batchedIndices g,
                   pr_boundingVolume = g_boundingVolume g,
                   pr_boundingVolumes = g_boundingVolumes g,
                   pr_center = g_center g,
                   pr_debugWireframe = False,
                   pr_forceRebatch = False,
                   pr_classificationType = BOTH,
                   pr_frames = 0\<rparr>,
          g_boxes := None,
          g_boxBatchIds := None,
          g_cylinders := None,
          g_cylinderBatchIds := None,
          g_ellipsoids := None,
          g_ellipsoidBatchIds := None,
          g_spheres := None,
          g_sphereBatchIds := None,
          g_center := None,
          g_modelMatrix := None,
          g_batchTable := None,
          g_boundingVolume := None,
          g_boundingVolumes := None,
          g_batchedIndices := None,
          g_indices := None,
          g_indexOffsets := None,
          g_indexCounts := None,
          g_positions := None,
          g_vertexBatchIds := None,
          g_batchIds := None,
          g_batchTableColors := None,
          g_packedBuffer := None,
          g_verticesPromise := None\<rparr>
      else g)"

text \<open>
  What the worker answers with. The packed buffer is given by the numbers that a
  \<^verbatim>\<open>Float64Array\<close> over it holds, the other buffers by their bytes.
\<close>

record workerResult =
  r_packedBuffer :: "real list"
  r_indices :: "byte list"
  r_indexOffsets :: "byte list"
  r_indexCounts :: "byte list"
  r_positions :: "byte list"
  r_vertexBatchIds :: "byte list"
  r_batchIds :: "byte list"

definition assigned :: "'v option \<Rightarrow> 'v option \<Rightarrow> 'v option" where
  "assigned new old = (case new of None \<Rightarrow> old | Some v \<Rightarrow> Some v)"

definition withView ::
  "nat \<Rightarrow> byte list \<Rightarrow> (view \<Rightarrow> ('a, 'e) Vector3DTileGeometry \<Rightarrow> ('a, 'e) Vector3DTileGeometry) \<Rightarrow>
   ('a, 'e) Vector3DTileGeometry \<Rightarrow>
   'e jsError \<times> ('a, 'e) Vector3DTileGeometry + ('a, 'e) Vector3DTileGeometry" where
  "withView bytesPerElement bytes assign g =
     (case newView bytesPerElement bytes of
        None \<Rightarrow> Inl (RangeErr, g)
      | Some v \<Rightarrow> Inr (assign v g))"

text \<open>
  The function given to \<^verbatim>\<open>then\<close>: the content after it, and the error if it throws
  (which the \<^verbatim>\<open>catch\<close> after it receives).
\<close>

definition onFulfilled ::
  "workerResult \<Rightarrow> ('a, 'e) Vector3DTileGeometry \<Rightarrow>
   'e jsError \<times> ('a, 'e) Vector3DTileGeometry + ('a, 'e) Vector3DTileGeometry" where
  "onFulfilled result geometries0 =
     (if isDestroyed geometries0 then Inr geometries0
      else
        (let u = unpackBuffer (r_packedBuffer result);
             g = geometries0\<lparr>g_boundingVolumes :=
                                assigned (u_boundingVolumes u) (g_boundingVolumes geometries0),
                              g_batchedIndices :=
                                assigned (u_batchedIndices u) (g_batchedIndices geometries0)\<rparr>
         in case u_result u of
              None \<Rightarrow> Inl (RangeErr, g)
            | Some indicesBytesPerElement \<Rightarrow>
                andThen (andThen (andThen (andThen (andThen (andThen
                  (withView (if indicesBytesPerElement = Some 2 then 2 else 4) (r_indices result)
                     (\<lambda>v g. g\<lparr>g_indices := Some v\<rparr>) g)
                  (withView 4 (r_indexOffsets result) (\<lambda>v g. g\<lparr>g_indexOffsets := Some v\<rparr>)))
                  (withView 4 (r_indexCounts result) (\<lambda>v g. g\<lparr>g_indexCounts := Some v\<rparr>)))
                  (withView 4 (r_positions result) (\<lambda>v g. g\<lparr>g_positions := Some v\<rparr>)))
                  (withView 2 (r_vertexBatchIds result) (\<lambda>v g. g\<lparr>g_vertexBatchIds := Some v\<rparr>)))
                  (withView 2 (r_batchIds result) (\<lambda>v g. g\<lparr>g_batchIds := Some v\<rparr>)))
                  (\<lambda>g. Inr ((finishPrimitive g)\<lparr>g_ready := True\<rparr>))))"

text \<open>The function given to \<^verbatim>\<open>catch\<close>.\<close>

definition onRejected ::
  "'e jsError \<Rightarrow> ('a, 'e) Vector3DTileGeometry \<Rightarrow> ('a, 'e) Vector3DTileGeometry" where
  "onRejected error geometries0 =
     (if isDestroyed geometries0 then geometries0
      else geometries0\<lparr>g_error := Some error\<rparr>)"

subsection \<open>Updating, destroying, and the arrival of the worker's answer\<close>

text \<open>
  \<^verbatim>\<open>update\<close> of the content (named apart from the composite's): the error it throws, if
  any, and the world after it. On a destroyed content it is the throwing function that
  \<^verbatim>\<open>destroyObject\<close> has put in its place.
\<close>

definition update_geometry ::
  "nat \<Rightarrow> ('a::zero, 'e) world \<Rightarrow> 'e jsError option \<times> ('a, 'e) world" where
  "update_geometry activeTasks w =
     (let this = w_content w in
      if g_destroyed this then (Some DeveloperError, w)
      else if \<not> g_ready this then
        (case (if g_promise this = None
               then (case createPrimitive activeTasks w of
                       (Some e, promise, w') \<Rightarrow> (Some e, w')
                     | (None, promise, w') \<Rightarrow>
                         (None, w'\<lparr>w_content := (w_content w')\<lparr>g_promise := promise\<rparr>\<rparr>))
               else (None, w)) of
           (Some e, w') \<Rightarrow> (Some e, w')
         | (None, w') \<Rightarrow>
             (case g_error (w_content w') of
                Some error \<Rightarrow> (Some error, w'\<lparr>w_content := (w_content w')\<lparr>g_error := None\<rparr>\<rparr>)
              | None \<Rightarrow> (None, w')))
      else
        (case g_primitive this of
           None \<Rightarrow> (Some TypeError, w)
         | Some primitive \<Rightarrow>
             (None,
              w\<lparr>w_content :=
                  this\<lparr>g_primitive :=
                         Some (primitive\<lparr>pr_debugWireframe := debugWireframe this,
                                         pr_forceRebatch := forceRebatch this,
                                         pr_classificationType := classificationType this,
                                         pr_frames := Suc (pr_frames primitive)\<rparr>)\<rparr>\<rparr>)))"

text \<open>
  \<^verbatim>\<open>destroy\<close>: the primitive's own \<^verbatim>\<open>destroy\<close> returns \<^verbatim>\<open>undefined\<close>, which is what the
  field is left with; then the content is marked.
\<close>

definition destroy :: "('a, 'e) world \<Rightarrow> 'e jsError option \<times> ('a, 'e) world" where
  "destroy w =
     (let this = w_content w in
      if g_destroyed this then (Some DeveloperError, w)
      else (None, w\<lparr>w_content := this\<lparr>g_primitive := None, g_destroyed := True\<rparr>\<rparr>))"

text \<open>
  What can happen to a content: a call of \<^verbatim>\<open>update\<close> (with the number of tasks the
  processor is running then), a call of \<^verbatim>\<open>destroy\<close>, and the settling of the promise of
  task \<open>t\<close>, which runs the handlers. A promise settles once: the settling of a task
  that is not pending is nothing.
\<close>

datatype 'e event = Update nat | Destroy | Resolve nat workerResult | Reject nat 'e

definition pending :: "('a, 'e) world \<Rightarrow> nat \<Rightarrow> bool" where
  "pending w t = (t < length (w_tasks w) \<and> snd (w_tasks w ! t))"

definition settle :: "nat \<Rightarrow> 'a tasks \<Rightarrow> 'a tasks" where
  "settle t ts = ts[t := (fst (ts ! t), False)]"

fun step :: "('a::zero, 'e) world \<Rightarrow> 'e event \<Rightarrow> 'e jsError option \<times> ('a, 'e) world" where
  "step w (Update activeTasks) = update_geometry activeTasks w"
| "step w Destroy = destroy w"
| "step w (Resolve t result) =
     (if pending w t then
        (None, w\<lparr>w_tasks := settle t (w_tasks w),
                 w_content := (case onFulfilled result (w_content w) of
                                 Inr g \<Rightarrow> g
                               | Inl (e, g) \<Rightarrow> onRejected e g)\<rparr>)
      else (None, w))"
| "step w (Reject t reason) =
     (if pending w t then
        (None, w\<lparr>w_tasks := settle t (w_tasks w),
                 w_content := onRejected (Raised reason) (w_content w)\<rparr>)
      else (None, w))"

text \<open>A history: what each event threw at its caller, and the world at the end.\<close>

fun run :: "('a::zero, 'e) world \<Rightarrow> 'e event list \<Rightarrow> 'e jsError option list \<times> ('a, 'e) world" where
  "run w [] = ([], w)"
| "run w (ev # evs) =
     (case step w ev of
        (thrown, w') \<Rightarrow> (case run w' evs of (rest, w'') \<Rightarrow> (thrown # rest, w'')))"

text \<open>
  Options that are well formed for the constructor: a shape array comes with its batch
  ids.
\<close>

definition wellFormed :: "'a options \<Rightarrow> bool" where
  "wellFormed opts =
     ((o_boxes opts \<noteq> None \<longrightarrow> o_boxBatchIds opts \<noteq> None) \<and>
      (o_cylinders opts \<noteq> None \<longrightarrow> o_cylinderBatchIds opts \<noteq> None) \<and>
      (o_ellipsoids opts \<noteq> None \<longrightarrow> o_ellipsoidBatchIds opts \<noteq> None) \<and>
      (o_spheres opts \<noteq> None \<longrightarrow> o_sphereBatchIds opts \<noteq> None))"

text \<open>
  A content for the examples: one box and one sphere, with their batch ids, all four of
  them views on the one buffer 0 of 98 bytes.
\<close>

definition identityMatrix :: "real Matrix4" where
  "identityMatrix =
     \<lparr>m0 = 1, m1 = 0, m2 = 0, m3 = 0, m4 = 0, m5 = 1, m6 = 0, m7 = 0,
      m8 = 0, m9 = 0, m10 = 1, m11 = 0, m12 = 0, m13 = 0, m14 = 0, m15 = 1\<rparr>"

definition exampleOptions :: "real options" where
  "exampleOptions =
     \<lparr>o_boxes = Some \<lparr>ta_buffer = 0, ta_byteOffset = 0, ta_length = 19, ta_bytesPerElement = 4\<rparr>,
      o_boxBatchIds = Some \<lparr>ta_buffer = 0, ta_byteOffset = 76, ta_length = 1, ta_bytesPerElement = 2\<rparr>,
      o_cylinders = None, o_cylinderBatchIds = None,
      o_ellipsoids = None, o_ellipsoidBatchIds = None,
      o_spheres = Some \<lparr>ta_buffer = 0, ta_byteOffset = 80, ta_length = 4, ta_bytesPerElement = 4\<rparr>,
      o_sphereBatchIds = Some \<lparr>ta_buffer = 0, ta_byteOffset = 96, ta_length = 1, ta_bytesPerElement = 2\<rparr>,
      o_center = Some \<lparr>x = 1, y = 2, z = 3\<rparr>,
      o_modelMatrix = identityMatrix,
      o_batchTable = (\<lambda>batchId. 4294967295),
      o_boundingVolume = None\<rparr>"

definition exampleStore :: store where
  "exampleStore = \<lparr>buffers = (\<lambda>b. if b = 0 then replicate 98 0 else []), nextBuffer = 1\<rparr>"

definition exampleWorld :: "(real, string) world" where
  "exampleWorld = newWorld exampleOptions exampleStore"

text \<open>An answer of the worker: 2-byte indices, no bounding volumes, no batches, and
  empty buffers.\<close>

definition exampleResult :: workerResult where
  "exampleResult =
     \<lparr>r_packedBuffer = [2, 0, 0], r_indices = [], r_indexOffsets = [], r_indexCounts = [],
      r_positions = [], r_vertexBatchIds = [], r_batchIds = []\<rparr>"

subsection \<open>Invariants of a content's history\<close>

text \<open>The fields that steer \<^verbatim>\<open>update\<close> and \<^verbatim>\<open>createPrimitive\<close>.\<close>

definition control ::
  "('a, 'e) Vector3DTileGeometry \<Rightarrow>
   bool \<times> bool \<times> nat option \<times> 'e jsError option \<times> nat option \<times> 'a Vector3DTilePrimitive option" where
  "control g =
     (g_destroyed g, g_ready g, g_promise g, g_error g, g_verticesPromise g, g_primitive g)"

text \<open>A property of the state that a step leaves behind, whether it throws or not.\<close>

definition always :: "('s \<Rightarrow> bool) \<Rightarrow> 'x \<times> 's + 's \<Rightarrow> bool" where
  "always P r = (case r of Inl (e, s) \<Rightarrow> P s | Inr s \<Rightarrow> P s)"

text \<open>
  At most one request was ever accepted; an accepted request has left its promise in
  \<^verbatim>\<open>_promise\<close>; and while a request is pending the content is not ready.
\<close>

definition submittedOnce :: "('a, 'e) world \<Rightarrow> bool" where
  "submittedOnce w =
     (length (w_tasks w) \<le> 1 \<and>
      (w_tasks w \<noteq> [] \<longrightarrow> g_promise (w_content w) \<noteq> None) \<and>
      ((\<exists>t. pending w t) \<longrightarrow> \<not> g_ready (w_content w)))"

text \<open>
  For the retry after a deferred submission: the fields that \<^verbatim>\<open>createPrimitive\<close>
  needs are there, the locals agree with them, a step does not throw, and the content
  has not got a request accepted yet.
\<close>

definition shapesOk :: "('a, 'e) Vector3DTileGeometry \<Rightarrow> bool" where
  "shapesOk g =
     ((g_boxes g \<noteq> None \<longrightarrow> g_boxBatchIds g \<noteq> None) \<and>
      (g_cylinders g \<noteq> None \<longrightarrow> g_cylinderBatchIds g \<noteq> None) \<and>
      (g_ellipsoids g \<noteq> None \<longrightarrow> g_ellipsoidBatchIds g \<noteq> None) \<and>
      (g_spheres g \<noteq> None \<longrightarrow> g_sphereBatchIds g \<noteq> None) \<and>
      g_batchTable g \<noteq> None \<and> g_center g \<noteq> None \<and> g_modelMatrix g \<noteq> None)"

definition localsOk :: "('a, 'e) locals \<Rightarrow> bool" where
  "localsOk l =
     (shapesOk (geometries l) \<and>
      (g_boxes (geometries l) \<noteq> None \<longrightarrow> boxes l \<noteq> None) \<and>
      (g_cylinders (geometries l) \<noteq> None \<longrightarrow> cylinders l \<noteq> None) \<and>
      (g_ellipsoids (geometries l) \<noteq> None \<longrightarrow> ellipsoids l \<noteq> None) \<and>
      (g_spheres (geometries l) \<noteq> None \<longrightarrow> spheres l \<noteq> None) \<and>
      (boxes l \<noteq> None \<longrightarrow> boxBatchIds l \<noteq> None) \<and>
      (cylinders l \<noteq> None \<longrightarrow> cylinderBatchIds l \<noteq> None) \<and>
      (ellipsoids l \<noteq> None \<longrightarrow> ellipsoidBatchIds l \<noteq> None) \<and>
      (spheres l \<noteq> None \<longrightarrow> sphereBatchIds l \<noteq> None))"

definition succeeds :: "('s \<Rightarrow> bool) \<Rightarrow> 'x + 's \<Rightarrow> bool" where
  "succeeds P r = (case r of Inl e \<Rightarrow> False | Inr s \<Rightarrow> P s)"

definition unstarted :: "('a, 'e) world \<Rightarrow> bool" where
  "unstarted w =
     (control (w_content w) = (False, False, None, None, None, None) \<and>
      w_tasks w = [] \<and> shapesOk (w_content w) \<and>
      (g_batchTableColors (w_content w) \<noteq> None \<longrightarrow> g_packedBuffer (w_content w) \<noteq> None))"


section \<open>Properties of the composite decoder\<close>

subsection \<open>The child loop follows the container layout\<close>

lemma childResult_SomeD:
  "childResult factory resource buf first k = Some r \<Longrightarrow>
     \<exists>off len f. specChildOffset buf first k = Some off \<and> getUint32 buf (off + 8) = Some len \<and>
        factory (getMagic buf off) = Some f \<and> f (childResource resource k) buf off = r"
  by (auto simp: childResult_def split: option.splits)

lemma childLoop_dispatch:
  assumes "\<forall>k. i \<le> k \<and> k < N \<longrightarrow> (\<exists>p. childResult factory resource buf first k = Some (Returns p))"
    and "specChildOffset buf first i = Some off" and "i \<le> N" and "n = N - i"
  shows "\<exists>calls' ps'.
           childLoop factory resource (compositePrefix resource) buf N i off calls ps
             = (calls @ calls', Inr (ps @ ps')) \<and>
           length calls' = N - i \<and> length ps' = N - i \<and>
           (\<forall>k<N - i. childResult factory resource buf first (i + k) = Some (Returns (ps' ! k)) \<and>
                      specChildOffset buf first (i + k) = Some (callByteOffset (calls' ! k)) \<and>
                      callTileType (calls' ! k) = getMagic buf (callByteOffset (calls' ! k)) \<and>
                      callResource (calls' ! k) = childResource resource (i + k))"
  using assms
proof (induction n arbitrary: i off calls ps)
  case 0
  then have "i = N" by simp
  then show ?case by (simp add: childLoop.simps)
next
  case (Suc n)
  then have lt: "i < N" by simp
  with Suc.prems(1) obtain p where p: "childResult factory resource buf first i = Some (Returns p)"
    by blast
  from childResult_SomeD [OF p] Suc.prems(2) obtain len f where
    len: "getUint32 buf (off + 8) = Some len" and f: "factory (getMagic buf off) = Some f"
    and r: "f (childResource resource i) buf off = Returns p"
    by auto
  define call where "call = \<lparr>callTileType = getMagic buf off, callResource = childResource resource i,
                             callByteOffset = off\<rparr>"
  have step: "childLoop factory resource (compositePrefix resource) buf N i off calls ps
      = childLoop factory resource (compositePrefix resource) buf N (Suc i) (off + len) (calls @ [call]) (ps @ [p])"
    using lt len f r
    by (subst childLoop.simps) (simp add: sizeOfUint32_def childResource_def call_def)
  have off': "specChildOffset buf first (Suc i) = Some (off + len)"
    using Suc.prems(2) len by simp
  have "\<forall>k. Suc i \<le> k \<and> k < N \<longrightarrow> (\<exists>p. childResult factory resource buf first k = Some (Returns p))"
    using Suc.prems(1) by auto
  moreover have "Suc i \<le> N" "n = N - Suc i" using lt Suc.prems(4) by simp_all
  ultimately have "\<exists>calls' ps'.
           childLoop factory resource (compositePrefix resource) buf N (Suc i) (off + len) (calls @ [call]) (ps @ [p])
             = ((calls @ [call]) @ calls', Inr ((ps @ [p]) @ ps')) \<and>
           length calls' = N - Suc i \<and> length ps' = N - Suc i \<and>
           (\<forall>k<N - Suc i. childResult factory resource buf first (Suc i + k) = Some (Returns (ps' ! k)) \<and>
                      specChildOffset buf first (Suc i + k) = Some (callByteOffset (calls' ! k)) \<and>
                      callTileType (calls' ! k) = getMagic buf (callByteOffset (calls' ! k)) \<and>
                      callResource (calls' ! k) = childResource resource (Suc i + k))"
    using off' by (intro Suc.IH)
  then obtain calls2 ps2 where
    run: "childLoop factory resource (compositePrefix resource) buf N (Suc i) (off + len) (calls @ [call]) (ps @ [p])
            = ((calls @ [call]) @ calls2, Inr ((ps @ [p]) @ ps2))"
    and l1: "length calls2 = N - Suc i" and l2: "length ps2 = N - Suc i"
    and each: "\<forall>k<N - Suc i. childResult factory resource buf first (Suc i + k) = Some (Returns (ps2 ! k)) \<and>
                      specChildOffset buf first (Suc i + k) = Some (callByteOffset (calls2 ! k)) \<and>
                      callTileType (calls2 ! k) = getMagic buf (callByteOffset (calls2 ! k)) \<and>
                      callResource (calls2 ! k) = childResource resource (Suc i + k)"
    by blast
  have "\<forall>k<N - i. childResult factory resource buf first (i + k) = Some (Returns ((p # ps2) ! k)) \<and>
                      specChildOffset buf first (i + k) = Some (callByteOffset ((call # calls2) ! k)) \<and>
                      callTileType ((call # calls2) ! k) = getMagic buf (callByteOffset ((call # calls2) ! k)) \<and>
                      callResource ((call # calls2) ! k) = childResource resource (i + k)"
  proof (intro allI impI)
    fix k assume k: "k < N - i"
    show "childResult factory resource buf first (i + k) = Some (Returns ((p # ps2) ! k)) \<and>
                      specChildOffset buf first (i + k) = Some (callByteOffset ((call # calls2) ! k)) \<and>
                      callTileType ((call # calls2) ! k) = getMagic buf (callByteOffset ((call # calls2) ! k)) \<and>
                      callResource ((call # calls2) ! k) = childResource resource (i + k)"
    proof (cases k)
      case 0
      then show ?thesis using p Suc.prems(2) by (simp add: call_def)
    next
      case (Suc k')
      with k have "k' < N - Suc i" by simp
      with each Suc show ?thesis by simp
    qed
  qed
  moreover have "length (call # calls2) = N - i" "length (p # ps2) = N - i"
    using l1 l2 lt by simp_all
  moreover have "childLoop factory resource (compositePrefix resource) buf N i off calls ps
      = (calls @ (call # calls2), Inr (ps @ (p # ps2)))"
    using step run by simp
  ultimately show ?case by blast
qed

lemma promiseAll_fulfilled:
  "\<forall>k<length ps. \<exists>c. ps ! k = Fulfilled c \<Longrightarrow>
     \<exists>cs. promiseAll ps = Inr cs \<and> length cs = length ps \<and> (\<forall>k<length ps. ps ! k = Fulfilled (cs ! k))"
proof (induction ps)
  case Nil
  then show ?case by simp
next
  case (Cons p ps)
  from Cons.prems have "\<exists>c. (p # ps) ! 0 = Fulfilled c" by blast
  then obtain c where c: "p = Fulfilled c" by auto
  have "\<forall>k<length ps. \<exists>c. ps ! k = Fulfilled c"
  proof (intro allI impI)
    fix k assume "k < length ps"
    then have "Suc k < length (p # ps)" by simp
    with Cons.prems have "\<exists>c. (p # ps) ! Suc k = Fulfilled c" by blast
    then show "\<exists>c. ps ! k = Fulfilled c" by simp
  qed
  from Cons.IH [OF this] obtain cs where cs: "promiseAll ps = Inr cs" "length cs = length ps"
    "\<forall>k<length ps. ps ! k = Fulfilled (cs ! k)" by blast
  have "\<forall>k<length (p # ps). (p # ps) ! k = Fulfilled ((c # cs) ! k)"
  proof (intro allI impI)
    fix k assume "k < length (p # ps)"
    then show "(p # ps) ! k = Fulfilled ((c # cs) ! k)"
      using c cs(3) by (cases k) auto
  qed
  with c cs show ?case by auto
qed


lemma specChildOffset_SucD:
  "specChildOffset buf first (Suc k) = Some off' \<Longrightarrow>
     \<exists>off len. specChildOffset buf first k = Some off \<and> getUint32 buf (off + 8) = Some len \<and>
        off' = off + len"
  by (auto split: option.splits)

lemma specChildOffset_prefix:
  "specChildOffset buf first m \<noteq> None \<Longrightarrow> k \<le> m \<Longrightarrow> specChildOffset buf first k \<noteq> None"
proof (induction m)
  case 0
  then show ?case by simp
next
  case (Suc m)
  show ?case
  proof (cases "k = Suc m")
    case True
    with Suc.prems show ?thesis by simp
  next
    case False
    with Suc.prems have "k \<le> m" by simp
    moreover from Suc.prems(1) have "specChildOffset buf first m \<noteq> None"
      by (auto split: option.splits)
    ultimately show ?thesis by (rule Suc.IH [rotated])
  qed
qed

lemma childLoop_unknown:
  assumes "\<forall>k. i \<le> k \<and> k < j \<longrightarrow> (\<exists>p. childResult factory resource buf first k = Some (Returns p))"
    and "specChildOffset buf first i = Some off" and "i \<le> j" and "j < N"
    and "specChildOffset buf first j = Some oj" and "getUint32 buf (oj + 8) = Some len"
    and "factory (getMagic buf oj) = None" and "n = j - i"
  shows "\<exists>calls'.
           childLoop factory resource (compositePrefix resource) buf N i off calls ps
             = (calls @ calls', Inl (UnknownTileType (getMagic buf oj))) \<and>
           length calls' = j - i \<and>
           (\<forall>k<j - i. specChildOffset buf first (i + k) = Some (callByteOffset (calls' ! k)))"
  using assms
proof (induction n arbitrary: i off calls ps)
  case 0
  then have ij: "i = j" by simp
  with 0 have "off = oj" by simp
  with 0 ij show ?case
    by (subst childLoop.simps) (simp add: sizeOfUint32_def)
next
  case (Suc n)
  then have lt: "i < j" by simp
  with Suc.prems(1) obtain p where p: "childResult factory resource buf first i = Some (Returns p)"
    by blast
  from childResult_SomeD [OF p] Suc.prems(2) obtain l f where
    l: "getUint32 buf (off + 8) = Some l" and f: "factory (getMagic buf off) = Some f"
    and r: "f (childResource resource i) buf off = Returns p"
    by auto
  define call where "call = \<lparr>callTileType = getMagic buf off, callResource = childResource resource i,
                             callByteOffset = off\<rparr>"
  have step: "childLoop factory resource (compositePrefix resource) buf N i off calls ps
      = childLoop factory resource (compositePrefix resource) buf N (Suc i) (off + l) (calls @ [call]) (ps @ [p])"
    using lt Suc.prems(4) l f r
    by (subst childLoop.simps) (simp add: sizeOfUint32_def childResource_def call_def)
  have off': "specChildOffset buf first (Suc i) = Some (off + l)"
    using Suc.prems(2) l by simp
  have "\<forall>k. Suc i \<le> k \<and> k < j \<longrightarrow> (\<exists>p. childResult factory resource buf first k = Some (Returns p))"
    using Suc.prems(1) by auto
  moreover have "Suc i \<le> j" "n = j - Suc i" using lt Suc.prems(8) by simp_all
  ultimately have "\<exists>calls'.
           childLoop factory resource (compositePrefix resource) buf N (Suc i) (off + l) (calls @ [call]) (ps @ [p])
             = ((calls @ [call]) @ calls', Inl (UnknownTileType (getMagic buf oj))) \<and>
           length calls' = j - Suc i \<and>
           (\<forall>k<j - Suc i. specChildOffset buf first (Suc i + k) = Some (callByteOffset (calls' ! k)))"
    using off' Suc.prems(4,5,6,7) by (intro Suc.IH)
  then obtain calls2 where
    run: "childLoop factory resource (compositePrefix resource) buf N (Suc i) (off + l) (calls @ [call]) (ps @ [p])
            = ((calls @ [call]) @ calls2, Inl (UnknownTileType (getMagic buf oj)))"
    and l1: "length calls2 = j - Suc i"
    and each: "\<forall>k<j - Suc i. specChildOffset buf first (Suc i + k) = Some (callByteOffset (calls2 ! k))"
    by blast
  have "\<forall>k<j - i. specChildOffset buf first (i + k) = Some (callByteOffset ((call # calls2) ! k))"
  proof (intro allI impI)
    fix k assume k: "k < j - i"
    show "specChildOffset buf first (i + k) = Some (callByteOffset ((call # calls2) ! k))"
    proof (cases k)
      case 0
      then show ?thesis using Suc.prems(2) by (simp add: call_def)
    next
      case (Suc k')
      with k have "k' < j - Suc i" by simp
      with each Suc show ?thesis by simp
    qed
  qed
  moreover have "length (call # calls2) = j - i"
    using l1 lt by simp
  moreover have "childLoop factory resource (compositePrefix resource) buf N i off calls ps
      = (calls @ (call # calls2), Inl (UnknownTileType (getMagic buf oj)))"
    using step run by simp
  ultimately show ?case by blast
qed

lemma less_2_cases: "(\<forall>k<2::nat. P k) = (P 0 \<and> P 1)"
  by (auto simp: numeral_2_eq_2 less_Suc_eq)

text \<open>
  C5. A container with version 1 whose child headers can be read up to position \<open>i\<close>,
  whose child at position \<open>i\<close> carries a tag that the registry does not know, and whose
  earlier factories do not throw: decoding fails with the unknown-tile-type error. The
  error names the tag of the first child \<open>j \<le> i\<close> with an unknown tag (child \<open>i\<close> itself
  when it is the first), and the factory invocations are exactly those of the children
  before \<open>j\<close>: none for \<open>j\<close> or any later sibling.
\<close>

theorem fromTileType_unknown_tile_type:
  assumes version: "getUint32 buf (orZero byteOffset + 4) = Some 1"
    and tiles: "getUint32 buf (orZero byteOffset + 12) = Some N"
    and i: "i < N"
    and readable: "specChildOffset buf (orZero byteOffset + 16) (Suc i) \<noteq> None"
    and unknown: "\<exists>oi. specChildOffset buf (orZero byteOffset + 16) i = Some oi \<and>
                       factory (getMagic buf oi) = None"
    and nothrow: "\<forall>k<i. \<forall>e. childResult factory resource buf (orZero byteOffset + 16) k
                              \<noteq> Some (Throws e)"
  shows "\<exists>j oj calls.
           j \<le> i \<and> specChildOffset buf (orZero byteOffset + 16) j = Some oj \<and>
           factory (getMagic buf oj) = None \<and>
           fromTileType resource buf byteOffset factory
             = (calls, Inl (UnknownTileType (getMagic buf oj))) \<and>
           length calls = j \<and>
           (\<forall>k<j. specChildOffset buf (orZero byteOffset + 16) k = Some (callByteOffset (calls ! k)))"
proof -
  let ?first = "orZero byteOffset + 16"
  let ?P = "\<lambda>j. \<exists>oj. specChildOffset buf ?first j = Some oj \<and> factory (getMagic buf oj) = None"
  define j where "j = (LEAST j. ?P j)"
  have Pj: "?P j" unfolding j_def using unknown by (rule LeastI)
  have ji: "j \<le> i" unfolding j_def using unknown by (rule Least_le)
  from Pj obtain oj where oj: "specChildOffset buf ?first j = Some oj"
    and none: "factory (getMagic buf oj) = None" by blast
  have "specChildOffset buf ?first (Suc j) \<noteq> None"
    by (rule specChildOffset_prefix [OF readable]) (use ji in simp)
  then obtain len where len: "getUint32 buf (oj + 8) = Some len"
    using oj by (auto split: option.splits)
  have before: "\<forall>k. 0 \<le> k \<and> k < j \<longrightarrow> (\<exists>p. childResult factory resource buf ?first k = Some (Returns p))"
  proof (intro allI impI)
    fix k assume "0 \<le> k \<and> k < j"
    then have k: "k < j" by simp
    then have "\<not> ?P k" unfolding j_def by (rule not_less_Least)
    have "specChildOffset buf ?first (Suc k) \<noteq> None"
      by (rule specChildOffset_prefix [OF readable]) (use k ji in simp)
    then obtain ok' where "specChildOffset buf ?first (Suc k) = Some ok'" by auto
    from specChildOffset_SucD [OF this] obtain ok l where
      ok: "specChildOffset buf ?first k = Some ok" and l: "getUint32 buf (ok + 8) = Some l"
      by blast
    with \<open>\<not> ?P k\<close> obtain f where f: "factory (getMagic buf ok) = Some f" by auto
    have r: "childResult factory resource buf ?first k = Some (f (childResource resource k) buf ok)"
      using ok l f by (simp add: childResult_def)
    from k ji nothrow have "\<forall>e. childResult factory resource buf ?first k \<noteq> Some (Throws e)"
      by simp
    with r show "\<exists>p. childResult factory resource buf ?first k = Some (Returns p)"
      by (cases "f (childResource resource k) buf ok") auto
  qed
  have jN: "j < N" using ji i by simp
  have "\<exists>calls'.
           childLoop factory resource (compositePrefix resource) buf N 0 ?first [] []
             = ([] @ calls', Inl (UnknownTileType (getMagic buf oj))) \<and>
           length calls' = j - 0 \<and>
           (\<forall>k<j - 0. specChildOffset buf ?first (0 + k) = Some (callByteOffset (calls' ! k)))"
    using oj len none jN by (intro childLoop_unknown [OF before]; simp)
  then obtain calls where
    run: "childLoop factory resource (compositePrefix resource) buf N 0 ?first [] []
            = (calls, Inl (UnknownTileType (getMagic buf oj)))"
    and lc: "length calls = j"
    and each: "\<forall>k<j. specChildOffset buf ?first k = Some (callByteOffset (calls ! k))"
    by auto
  have res: "fromTileType resource buf byteOffset factory
               = (calls, Inl (UnknownTileType (getMagic buf oj)))"
    using version tiles run
    by (simp add: fromTileType_def sizeOfUint32_def add.assoc)
  from ji oj none res lc each show ?thesis
    by - (rule exI [of _ j], rule exI [of _ oj], rule exI [of _ calls], intro conjI, assumption+)
qed

theorem fromTileType_unknown_tile_type_witness:
  "\<exists>j oj calls.
      j \<le> 1 \<and> specChildOffset exampleUnknown (orZero None + 16) j = Some oj \<and>
      exampleFactory (getMagic exampleUnknown oj) = None \<and>
      fromTileType exampleResource exampleUnknown None exampleFactory
        = (calls, Inl (UnknownTileType (getMagic exampleUnknown oj))) \<and>
      length calls = j \<and>
      (\<forall>k<j. specChildOffset exampleUnknown (orZero None + 16) k
                = Some (callByteOffset (calls ! k)))"
proof -
  have h1: "getUint32 exampleUnknown (orZero None + 4) = Some 1"
    by (simp add: getUint32_def exampleUnknown_def orZero_def)
  have h2: "getUint32 exampleUnknown (orZero None + 12) = Some 3"
    by (simp add: getUint32_def exampleUnknown_def orZero_def)
  have h3: "(1::nat) < 3" by simp
  have h4: "specChildOffset exampleUnknown (orZero None + 16) (Suc 1) \<noteq> None"
    by (simp add: getUint32_def exampleUnknown_def orZero_def)
  have h5: "\<exists>oi. specChildOffset exampleUnknown (orZero None + 16) 1 = Some oi \<and>
                 exampleFactory (getMagic exampleUnknown oi) = None"
    by (simp add: getUint32_def exampleUnknown_def orZero_def getMagic_def exampleFactory_def)
  have h6: "\<forall>k<1. \<forall>e. childResult exampleFactory exampleResource exampleUnknown (orZero None + 16) k
                   \<noteq> Some (Throws e)"
    by (simp add: childResult_def getUint32_def exampleUnknown_def orZero_def getMagic_def
          exampleFactory_def)
  show ?thesis
    by (rule fromTileType_unknown_tile_type [OF h1 h2 h3 h4 h5 h6])
qed

text \<open>
  C6. A valid container: version 1, \<open>N\<close> declared children, every child header readable,
  every tag known, every factory fulfilling. Decoding produces a composite whose
  \<^verbatim>\<open>innerContents\<close> has length \<open>N\<close>; child \<open>k\<close> of it is the content that the factory
  fulfilled for the child at position \<open>k\<close> of the container; there is one factory
  invocation per child, in order; and the byte offset handed to the factory of child
  \<open>k + 1\<close> is that of child \<open>k\<close> plus the byte length read 8 bytes into child \<open>k\<close>.
\<close>

theorem fromTileType_children_in_order:
  assumes version: "getUint32 buf (orZero byteOffset + 4) = Some 1"
    and tiles: "getUint32 buf (orZero byteOffset + 12) = Some N"
    and valid: "\<forall>k<N. \<exists>c. childResult factory resource buf (orZero byteOffset + 16) k
                          = Some (Returns (Fulfilled c))"
  shows "\<exists>calls cs.
           fromTileType resource buf byteOffset factory
             = (calls, Inr \<lparr>p_resource = resource, p_contents = cs, p_ready = False\<rparr>) \<and>
           length cs = N \<and> length calls = N \<and>
           (\<forall>k<N. childResult factory resource buf (orZero byteOffset + 16) k
                      = Some (Returns (Fulfilled (cs ! k))) \<and>
                   specChildOffset buf (orZero byteOffset + 16) k = Some (callByteOffset (calls ! k)) \<and>
                   callTileType (calls ! k) = getMagic buf (callByteOffset (calls ! k)) \<and>
                   callResource (calls ! k) = childResource resource k) \<and>
           (\<forall>k. Suc k < N \<longrightarrow>
              (\<exists>len. getUint32 buf (callByteOffset (calls ! k) + 8) = Some len \<and>
                     callByteOffset (calls ! Suc k) = callByteOffset (calls ! k) + len))"
proof -
  let ?first = "orZero byteOffset + 16"
  have all: "\<forall>k. 0 \<le> k \<and> k < N \<longrightarrow> (\<exists>p. childResult factory resource buf ?first k = Some (Returns p))"
    using valid by blast
  have "\<exists>calls' ps'.
           childLoop factory resource (compositePrefix resource) buf N 0 ?first [] []
             = ([] @ calls', Inr ([] @ ps')) \<and>
           length calls' = N - 0 \<and> length ps' = N - 0 \<and>
           (\<forall>k<N - 0. childResult factory resource buf ?first (0 + k) = Some (Returns (ps' ! k)) \<and>
                      specChildOffset buf ?first (0 + k) = Some (callByteOffset (calls' ! k)) \<and>
                      callTileType (calls' ! k) = getMagic buf (callByteOffset (calls' ! k)) \<and>
                      callResource (calls' ! k) = childResource resource (0 + k))"
    by (rule childLoop_dispatch [OF all]) simp_all
  then obtain calls ps where
    run: "childLoop factory resource (compositePrefix resource) buf N 0 ?first [] [] = (calls, Inr ps)"
    and lc: "length calls = N" and lp: "length ps = N"
    and each: "\<forall>k<N. childResult factory resource buf ?first k = Some (Returns (ps ! k)) \<and>
                      specChildOffset buf ?first k = Some (callByteOffset (calls ! k)) \<and>
                      callTileType (calls ! k) = getMagic buf (callByteOffset (calls ! k)) \<and>
                      callResource (calls ! k) = childResource resource k"
    by auto
  have "\<forall>k<length ps. \<exists>c. ps ! k = Fulfilled c"
  proof (intro allI impI)
    fix k assume "k < length ps"
    then have k: "k < N" using lp by simp
    with valid obtain c where "childResult factory resource buf ?first k = Some (Returns (Fulfilled c))"
      by blast
    with each k show "\<exists>c. ps ! k = Fulfilled c" by auto
  qed
  from promiseAll_fulfilled [OF this] obtain cs where
    cs: "promiseAll ps = Inr cs" "length cs = length ps" "\<forall>k<length ps. ps ! k = Fulfilled (cs ! k)"
    by blast
  have res: "fromTileType resource buf byteOffset factory
             = (calls, Inr \<lparr>p_resource = resource, p_contents = cs, p_ready = False\<rparr>)"
    using version tiles run cs(1)
    by (simp add: fromTileType_def sizeOfUint32_def Composite3DTileContent_def add.assoc)
  have chain: "\<forall>k. Suc k < N \<longrightarrow>
              (\<exists>len. getUint32 buf (callByteOffset (calls ! k) + 8) = Some len \<and>
                     callByteOffset (calls ! Suc k) = callByteOffset (calls ! k) + len)"
  proof (intro allI impI)
    fix k assume k: "Suc k < N"
    with each have a: "specChildOffset buf ?first (Suc k) = Some (callByteOffset (calls ! Suc k))"
      by blast
    from k each have b: "specChildOffset buf ?first k = Some (callByteOffset (calls ! k))"
      by simp
    from specChildOffset_SucD [OF a] b
    show "\<exists>len. getUint32 buf (callByteOffset (calls ! k) + 8) = Some len \<and>
                     callByteOffset (calls ! Suc k) = callByteOffset (calls ! k) + len"
      by auto
  qed
  have final: "\<forall>k<N. childResult factory resource buf ?first k = Some (Returns (Fulfilled (cs ! k))) \<and>
                   specChildOffset buf ?first k = Some (callByteOffset (calls ! k)) \<and>
                   callTileType (calls ! k) = getMagic buf (callByteOffset (calls ! k)) \<and>
                   callResource (calls ! k) = childResource resource k"
    using each cs(3) lp by simp
  have lcs: "length cs = N" using cs(2) lp by simp
  from res lcs lc final chain show ?thesis
    by - (rule exI [of _ calls], rule exI [of _ cs], intro conjI, assumption+)
qed

theorem fromTileType_children_in_order_witness:
  "\<exists>calls cs.
      fromTileType exampleResource exampleComposite None exampleFactory
        = (calls, Inr \<lparr>p_resource = exampleResource, p_contents = cs, p_ready = False\<rparr>) \<and>
      length cs = 2 \<and> length calls = 2 \<and>
      (\<forall>k<2. childResult exampleFactory exampleResource exampleComposite (orZero None + 16) k
                 = Some (Returns (Fulfilled (cs ! k))) \<and>
              specChildOffset exampleComposite (orZero None + 16) k
                 = Some (callByteOffset (calls ! k)) \<and>
              callTileType (calls ! k) = getMagic exampleComposite (callByteOffset (calls ! k)) \<and>
              callResource (calls ! k) = childResource exampleResource k) \<and>
      (\<forall>k. Suc k < 2 \<longrightarrow>
         (\<exists>len. getUint32 exampleComposite (callByteOffset (calls ! k) + 8) = Some len \<and>
                callByteOffset (calls ! Suc k) = callByteOffset (calls ! k) + len))"
proof -
  have h1: "getUint32 exampleComposite (orZero None + 4) = Some 1"
    by (simp add: getUint32_def exampleComposite_def orZero_def)
  have h2: "getUint32 exampleComposite (orZero None + 12) = Some 2"
    by (simp add: getUint32_def exampleComposite_def orZero_def)
  have h3: "\<forall>k<2. \<exists>c. childResult exampleFactory exampleResource exampleComposite
                         (orZero None + 16) k = Some (Returns (Fulfilled c))"
    unfolding less_2_cases
    by (simp add: childResult_def getUint32_def exampleComposite_def orZero_def getMagic_def
          exampleFactory_def)
  show ?thesis
    by (rule fromTileType_children_in_order [OF h1 h2 h3])
qed

subsection \<open>Readiness of the composite\<close>

lemma updateLoop_None:
  "updateLoop cupdate cready cs ready = (None, cs', ready') \<Longrightarrow>
     ready' = (ready \<and> (\<forall>c\<in>set cs'. cready c)) \<and> cs' = map (\<lambda>c. snd (cupdate c)) cs"
proof (induction cs arbitrary: ready cs' ready')
  case Nil
  then show ?case by simp
next
  case (Cons c cs)
  obtain err c' where c: "cupdate c = (err, c')" by (cases "cupdate c")
  with Cons.prems have err: "err = None" by (cases err) auto
  obtain err2 cs2 r2 where rest: "updateLoop cupdate cready cs (ready \<and> cready c') = (err2, cs2, r2)"
    by (cases "updateLoop cupdate cready cs (ready \<and> cready c')")
  with Cons.prems c err have eqs: "err2 = None" "cs' = c' # cs2" "ready' = r2" by auto
  from Cons.IH [OF rest [unfolded eqs(1)]]
  have "r2 = ((ready \<and> cready c') \<and> (\<forall>c\<in>set cs2. cready c))" "cs2 = map (\<lambda>c. snd (cupdate c)) cs"
    by auto
  with eqs c show ?case by auto
qed

lemma update_p_ready_mono: "p_ready this \<Longrightarrow> p_ready (snd (update cupdate cready this))"
  by (auto simp: update_def split: prod.splits option.splits)

lemma updates_p_ready_mono: "p_ready this \<Longrightarrow> p_ready (updates frames this)"
  by (induction frames this rule: updates.induct) (auto simp: update_p_ready_mono)

text \<open>
  C7. An update call sets the ready flag exactly when it was set already or the call ran
  through and every child, after its own update, reports ready; and a composite that is
  ready stays ready over any further run of update calls, whatever the children do or
  report in them.
\<close>

theorem update_ready_monotonic:
  "p_ready (snd (update cupdate cready this)) =
     (p_ready this \<or>
      (fst (update cupdate cready this) = None \<and>
       (\<forall>c\<in>set (p_contents (snd (update cupdate cready this))). cready c)))
   \<and> (p_ready this \<longrightarrow> p_ready (updates frames this))"
proof (intro conjI impI)
  obtain err cs ready where loop: "updateLoop cupdate cready (p_contents this) True = (err, cs, ready)"
    by (cases "updateLoop cupdate cready (p_contents this) True")
  show "p_ready (snd (update cupdate cready this)) =
     (p_ready this \<or>
      (fst (update cupdate cready this) = None \<and>
       (\<forall>c\<in>set (p_contents (snd (update cupdate cready this))). cready c)))"
  proof (cases err)
    case None
    with loop updateLoop_None [of cupdate cready "p_contents this" True cs ready]
    have "ready = (\<forall>c\<in>set cs. cready c)" by simp
    with loop None show ?thesis by (auto simp: update_def)
  next
    case (Some e)
    with loop show ?thesis by (simp add: update_def)
  qed
next
  assume "p_ready this"
  then show "p_ready (updates frames this)" by (rule updates_p_ready_mono)
qed

theorem update_ready_monotonic_witness:
  "\<not> p_ready exampleNotReady \<and>
   p_ready (snd (update (\<lambda>c. (None :: string option, True)) (\<lambda>c. c) exampleNotReady)) \<and>
   p_contents (updates [(\<lambda>c. (None :: string option, False), \<lambda>c. c)]
                 (snd (update (\<lambda>c. (None :: string option, True)) (\<lambda>c. c) exampleNotReady)))
     = [False] \<and>
   p_ready (updates [(\<lambda>c. (None :: string option, False), \<lambda>c. c)]
              (snd (update (\<lambda>c. (None :: string option, True)) (\<lambda>c. c) exampleNotReady)))"
proof -
  let ?u = "\<lambda>c::bool. (None :: string option, True)"
  let ?t = "snd (update ?u (\<lambda>c. c) exampleNotReady)"
  have a: "fst (update ?u (\<lambda>c. c) exampleNotReady) = None"
    and b: "\<forall>c\<in>set (p_contents ?t). c"
    by (simp_all add: update_def exampleNotReady_def Composite3DTileContent_def)
  from a b update_ready_monotonic [of ?u "\<lambda>c. c" exampleNotReady "[]", THEN conjunct1]
  have r: "p_ready ?t" by blast
  from r update_ready_monotonic [of _ _ ?t "[(\<lambda>c. (None :: string option, False), \<lambda>c. c)]",
      THEN conjunct2]
  have "p_ready (updates [(\<lambda>c. (None :: string option, False), \<lambda>c. c)] ?t)" by blast
  moreover have "p_contents (updates [(\<lambda>c. (None :: string option, False), \<lambda>c. c)] ?t) = [False]"
    by (simp add: update_def exampleNotReady_def Composite3DTileContent_def)
  moreover have "\<not> p_ready exampleNotReady"
    by (simp add: exampleNotReady_def Composite3DTileContent_def)
  ultimately show ?thesis using r by blast
qed

text \<open>
  C10. A composite constructed with an undefined or an empty child list has the empty
  child list, and its first update call does not throw and sets its ready flag.
\<close>

theorem update_without_children:
  "p_contents (Composite3DTileContent resource None) = [] \<and>
   p_contents (Composite3DTileContent resource (Some [])) = [] \<and>
   update cupdate cready (Composite3DTileContent resource None)
     = (None, \<lparr>p_resource = resource, p_contents = [], p_ready = True\<rparr>) \<and>
   update cupdate cready (Composite3DTileContent resource (Some []))
     = (None, \<lparr>p_resource = resource, p_contents = [], p_ready = True\<rparr>)"
  by (simp add: Composite3DTileContent_def update_def)

subsection \<open>Picking\<close>

lemma pick_result_cases:
  "fst (pick cpick this ray result h) = None \<or> fst (pick cpick this ray result h) = result"
  by (simp add: pick_def split: prod.splits option.splits)

text \<open>
  C1. The value that \<^verbatim>\<open>pick\<close> returns is its \<^verbatim>\<open>result\<close> parameter, not the nearest
  intersection it has found. With the parameter omitted, a ready composite whose only
  child is hit at \<open>(2, 0, 0)\<close> returns \<^verbatim>\<open>undefined\<close>. With the parameter supplied and
  two children hit at distance 2 and at distance 5, in that order, it returns the
  parameter, which by then holds the second child's point at distance 5.
\<close>

theorem pick_returns_result_parameter:
  "fst (pick pickAt \<lparr>p_resource = exampleResource, p_contents = [Some \<lparr>x = 2, y = 0, z = 0\<rparr>],
                     p_ready = True\<rparr> exampleRay None exampleHeap) = None
   \<and> (case pick pickAt \<lparr>p_resource = exampleResource,
                          p_contents = [Some \<lparr>x = 2, y = 0, z = 0\<rparr>, Some \<lparr>x = 5, y = 0, z = 0\<rparr>],
                          p_ready = True\<rparr> exampleRay (Some 0) exampleHeap of
         (result, h) \<Rightarrow> result = Some 0 \<and> cells h 0 = \<lparr>x = 5, y = 0, z = 0\<rparr>
                          \<and> distance (origin exampleRay) (cells h 0) = 5)"
  by (simp add: pick_def pickAt_def lessThanMin_def exampleHeap_def exampleRay_def distance_def)

section \<open>Properties of the vector geometry content\<close>

subsection \<open>The packed context\<close>

text \<open>
  C9. For every center and every model matrix, \<^verbatim>\<open>packBuffer\<close> gives the buffer of 19
  numbers that holds the three components of the center and then the sixteen of the
  matrix, and unpacking that buffer as the context gives back the same center and the
  same matrix. The components are of any type: they are moved, never computed with.
\<close>

theorem packBuffer_unpackContext:
  "packBuffer (Some c) (Some m)
     = Inr [x c, y c, z c, m0 m, m1 m, m2 m, m3 m, m4 m, m5 m, m6 m, m7 m, m8 m, m9 m,
            m10 m, m11 m, m12 m, m13 m, m14 m, m15 m] \<and>
   unpackContext [x c, y c, z c, m0 m, m1 m, m2 m, m3 m, m4 m, m5 m, m6 m, m7 m, m8 m, m9 m,
                  m10 m, m11 m, m12 m, m13 m, m14 m, m15 m] = Some (c, m)"
  by (simp add: packBuffer_def unpackContext_def Cartesian3_pack_def Matrix4_pack_def
        Cartesian3_unpack_def Matrix4_unpack_def Cartesian3_packedLength_def
        Matrix4_packedLength_def eval_nat_numeral)

text \<open>
  \<^verbatim>\<open>unpackBuffer\<close> of this module is not that inverse: it reads the layout of the
  worker's result. On the packed context of the example content (center \<open>(1, 2, 3)\<close>,
  identity matrix) it returns the center's first component as the width of the indices
  and takes the second as the number of bounding volumes.
\<close>

lemma unpackBuffer_of_a_packed_context:
  "u_result (unpackBuffer [1, 2, 3, 1, 0, 0, 0, 0, 1, 0, 0, 0, 0, 1, 0, 0, 0, 0, 1])
     = Some (Some 1) \<and>
   map_option length
     (u_boundingVolumes (unpackBuffer [1, 2, 3, 1, 0, 0, 0, 0, 1, 0, 0, 0, 0, 1, 0, 0, 0, 0, 1]))
     = Some 2"
  by code_simp

subsection \<open>The copies of the shape arrays\<close>

text \<open>
  C2. The example content has a box and a sphere, both views on buffer 0. After a
  first update that submits at once, the content's \<^verbatim>\<open>_boxes\<close> is a copy on a buffer of
  its own, but its \<^verbatim>\<open>_spheres\<close> is still the view on buffer 0 that it was constructed
  with (the copy went to \<^verbatim>\<open>_sphere\<close>). After an update that is deferred and a second
  one that submits, the request names buffer 0 for the spheres and has it in its
  transfer list, where the boxes have their copy.
\<close>

theorem createPrimitive_spheres_alias:
  "g_spheres (w_content (snd (step exampleWorld (Update 0)))) = o_spheres exampleOptions \<and>
   g_sphere (w_content (snd (step exampleWorld (Update 0))))
     = Some \<lparr>ta_buffer = 3, ta_byteOffset = 0, ta_length = 4, ta_bytesPerElement = 4\<rparr> \<and>
   g_boxes (w_content (snd (step exampleWorld (Update 0))))
     = Some \<lparr>ta_buffer = 1, ta_byteOffset = 0, ta_length = 19, ta_bytesPerElement = 4\<rparr> \<and>
   map (\<lambda>(req, p). (q_boxes (parameters req), q_spheres (parameters req)))
       (w_tasks (snd (step exampleWorld (Update 0)))) = [(Some 1, Some 3)] \<and>
   map (\<lambda>(req, p). (q_boxes (parameters req), q_spheres (parameters req)))
       (w_tasks (snd (run exampleWorld [Update 5, Update 0]))) = [(Some 1, Some 0)] \<and>
   map (\<lambda>(req, p). take 4 (transferableObjects req))
       (w_tasks (snd (run exampleWorld [Update 5, Update 0])))
     = [[Buffer 1, Buffer 2, Buffer 0, Buffer 4]]"
  by code_simp

subsection \<open>A result that arrives after the content was destroyed\<close>

lemma onFulfilled_destroyed: "g_destroyed g \<Longrightarrow> onFulfilled result g = Inr g"
  by (simp add: onFulfilled_def isDestroyed_def)

lemma onRejected_destroyed: "g_destroyed g \<Longrightarrow> onRejected e g = g"
  by (simp add: onRejected_def isDestroyed_def)

text \<open>
  C8. A content that is not destroyed and has a decode request pending is destroyed.
  \<^verbatim>\<open>destroy\<close> does not throw and leaves the content marked and without a primitive,
  and the request stays pending. When its promise then fulfils or rejects, nothing is
  thrown and the world is the one after \<^verbatim>\<open>destroy\<close> but for the task being settled:
  no field of the content has changed, it has no primitive, and it is still marked.
\<close>

theorem delivery_after_destroy:
  assumes "\<not> g_destroyed (w_content w)" and "pending w t"
  shows "fst (step w Destroy) = None \<and>
         isDestroyed (w_content (snd (step w Destroy))) \<and>
         g_primitive (w_content (snd (step w Destroy))) = None \<and>
         pending (snd (step w Destroy)) t \<and>
         step (snd (step w Destroy)) (Resolve t result)
           = (None, (snd (step w Destroy))\<lparr>w_tasks := settle t (w_tasks w)\<rparr>) \<and>
         step (snd (step w Destroy)) (Reject t reason)
           = (None, (snd (step w Destroy))\<lparr>w_tasks := settle t (w_tasks w)\<rparr>)"
  using assms
  by (simp add: destroy_def isDestroyed_def pending_def onFulfilled_destroyed onRejected_destroyed)

theorem delivery_after_destroy_witness:
  "fst (step (snd (step exampleWorld (Update 0))) Destroy) = None \<and>
   isDestroyed (w_content (snd (step (snd (step exampleWorld (Update 0))) Destroy))) \<and>
   g_primitive (w_content (snd (step (snd (step exampleWorld (Update 0))) Destroy))) = None \<and>
   pending (snd (step (snd (step exampleWorld (Update 0))) Destroy)) 0 \<and>
   step (snd (step (snd (step exampleWorld (Update 0))) Destroy)) (Resolve 0 exampleResult)
     = (None, (snd (step (snd (step exampleWorld (Update 0))) Destroy))
                \<lparr>w_tasks := settle 0 (w_tasks (snd (step exampleWorld (Update 0))))\<rparr>) \<and>
   step (snd (step (snd (step exampleWorld (Update 0))) Destroy)) (Reject 0 ''worker failed'')
     = (None, (snd (step (snd (step exampleWorld (Update 0))) Destroy))
                \<lparr>w_tasks := settle 0 (w_tasks (snd (step exampleWorld (Update 0))))\<rparr>)"
proof -
  have d: "\<not> g_destroyed (w_content (snd (step exampleWorld (Update 0))))" by code_simp
  have p: "pending (snd (step exampleWorld (Update 0))) 0" by code_simp
  show ?thesis by (rule delivery_after_destroy [OF d p])
qed

subsection \<open>One request, and an error raised once\<close>

lemma always_andThen:
  assumes "always P r" and "\<And>s. P s \<Longrightarrow> always P (f s)"
  shows "always P (andThen r f)"
proof (cases r)
  case (Inl a)
  then show ?thesis using assms(1) by (simp add: always_def andThen_def)
next
  case (Inr s)
  with assms(1) have "P s" by (simp add: always_def)
  then have "always P (f s)" by (rule assms(2))
  with Inr show ?thesis by (simp add: andThen_def)
qed

lemma always_copyBoxes:
  "control (geometries l) = c \<Longrightarrow> always (\<lambda>l. control (geometries l) = c) (copyBoxes l)"
  by (auto simp: always_def copyBoxes_def control_def sliceOf_def Let_def
           split: sum.splits option.splits prod.splits)

lemma always_copyCylinders:
  "control (geometries l) = c \<Longrightarrow> always (\<lambda>l. control (geometries l) = c) (copyCylinders l)"
  by (auto simp: always_def copyCylinders_def control_def sliceOf_def Let_def
           split: sum.splits option.splits prod.splits)

lemma always_copyEllipsoids:
  "control (geometries l) = c \<Longrightarrow> always (\<lambda>l. control (geometries l) = c) (copyEllipsoids l)"
  by (auto simp: always_def copyEllipsoids_def control_def sliceOf_def Let_def
           split: sum.splits option.splits prod.splits)

lemma always_copySpheres:
  "control (geometries l) = c \<Longrightarrow> always (\<lambda>l. control (geometries l) = c) (copySpheres l)"
  by (auto simp: always_def copySpheres_def control_def sliceOf_def Let_def
           split: sum.splits option.splits prod.splits)

lemma always_colorTable:
  "control (geometries l) = c \<Longrightarrow> always (\<lambda>l. control (geometries l) = c) (colorTable l)"
  by (auto simp: always_def colorTable_def control_def Let_def
           split: sum.splits option.splits prod.splits)

lemma always_packContext:
  "control (geometries l) = c \<Longrightarrow> always (\<lambda>l. control (geometries l) = c) (packContext l)"
  by (auto simp: always_def packContext_def control_def Let_def
           split: sum.splits option.splits prod.splits)

lemma always_copyAndPack:
  "control (geometries l) = c \<Longrightarrow> always (\<lambda>l. control (geometries l) = c) (copyAndPack l)"
  unfolding copyAndPack_def
  by (intro always_andThen always_copyBoxes always_copyCylinders always_copyEllipsoids
        always_copySpheres always_colorTable always_packContext) simp_all

lemma createPrimitive_effect:
  assumes "createPrimitive n w = (thrown, promise, w')"
  shows "g_destroyed (w_content w') = g_destroyed (w_content w) \<and>
         g_ready (w_content w') = g_ready (w_content w) \<and>
         g_promise (w_content w') = g_promise (w_content w) \<and>
         g_error (w_content w') = g_error (w_content w) \<and>
         (promise = None \<longrightarrow> w_tasks w' = w_tasks w) \<and>
         (promise \<noteq> None \<longrightarrow> thrown = None \<and> (\<exists>req. w_tasks w' = w_tasks w @ [(req, True)]))"
proof -
  let ?g = "w_content w"
  let ?l = "\<lparr>boxes = g_boxes ?g, boxBatchIds = g_boxBatchIds ?g,
            cylinders = g_cylinders ?g, cylinderBatchIds = g_cylinderBatchIds ?g,
            ellipsoids = g_ellipsoids ?g, ellipsoidBatchIds = g_ellipsoidBatchIds ?g,
            spheres = g_spheres ?g, sphereBatchIds = g_sphereBatchIds ?g,
            l_length = 0, geometries = ?g, arrayBuffers = w_store w\<rparr>"
  let ?r = "if g_batchTableColors ?g = None then copyAndPack ?l else Inr ?l"
  have r: "always (\<lambda>l. control (geometries l) = control ?g) ?r"
    using always_copyAndPack [of ?l "control ?g"] by (simp add: always_def)
  show ?thesis
  proof (cases "g_primitive ?g \<noteq> None \<or> g_verticesPromise ?g \<noteq> None")
    case True
    with assms show ?thesis by (auto simp: createPrimitive_def Let_def split: if_splits)
  next
    case False
    show ?thesis
    proof (cases ?r)
      case (Inl a)
      obtain e l' where a: "a = (e, l')" by (cases a)
      from r Inl a have "control (geometries l') = control ?g" by (simp add: always_def)
      with assms False Inl a show ?thesis
        by (auto simp: createPrimitive_def Let_def control_def)
    next
      case (Inr l')
      with r have c: "control (geometries l') = control ?g" by (simp add: always_def)
      show ?thesis
      proof (cases "buildRequest l' (g_batchTableColors (geometries l')) (g_packedBuffer (geometries l'))")
        case None
        with assms False Inr c show ?thesis
          by (auto simp: createPrimitive_def Let_def control_def)
      next
        case (Some req)
        with assms False Inr c show ?thesis
          by (auto simp: createPrimitive_def Let_def control_def scheduleTask_def split: if_splits)
      qed
    qed
  qed
qed
lemma always_withView:
  assumes "P g" and "\<And>v. P (assign v g)"
  shows "always P (withView bytesPerElement bytes assign g)"
  using assms by (simp add: always_def withView_def split: option.splits)

lemma always_onFulfilled:
  "always (\<lambda>g'. g_promise g' = g_promise g \<and> g_destroyed g' = g_destroyed g)
     (onFulfilled result g)"
proof (cases "isDestroyed g")
  case True
  then show ?thesis by (simp add: onFulfilled_def always_def)
next
  case False
  let ?u = "unpackBuffer (r_packedBuffer result)"
  show ?thesis
  proof (cases "u_result ?u")
    case None
    with False show ?thesis by (simp add: onFulfilled_def always_def Let_def)
  next
    case (Some ibpe)
    with False show ?thesis
      unfolding onFulfilled_def Let_def
      apply (simp only: if_False option.simps)
      apply (intro always_andThen always_withView)
      apply (simp_all add: always_def finishPrimitive_def)
      done
  qed
qed

lemma onRejected_keeps:
  "g_promise (onRejected e g) = g_promise g \<and> g_destroyed (onRejected e g) = g_destroyed g \<and>
   g_ready (onRejected e g) = g_ready g"
  by (simp add: onRejected_def)

lemma settled_promise:
  "g_promise (case onFulfilled result g of Inr g' \<Rightarrow> g' | Inl (e, g') \<Rightarrow> onRejected e g')
     = g_promise g"
  using always_onFulfilled [of g result]
  by (auto simp: always_def onRejected_keeps split: sum.splits)

lemma settle_length: "length (settle t ts) = length ts"
  by (simp add: settle_def)

lemma settle_single:
  "length ts \<le> 1 \<Longrightarrow> t < length ts \<Longrightarrow> t' < length ts \<Longrightarrow> \<not> snd (settle t ts ! t')"
  by (cases ts) (auto simp: settle_def)

lemma update_geometry_submittedOnce:
  assumes "submittedOnce w"
  shows "submittedOnce (snd (update_geometry n w))"
proof -
  let ?this = "w_content w"
  consider (d) "g_destroyed ?this"
    | (r) "\<not> g_destroyed ?this" "g_ready ?this"
    | (p) "\<not> g_destroyed ?this" "\<not> g_ready ?this" "g_promise ?this \<noteq> None"
    | (c) "\<not> g_destroyed ?this" "\<not> g_ready ?this" "g_promise ?this = None"
    by blast
  then show ?thesis
  proof cases
    case d
    with assms show ?thesis by (simp add: update_geometry_def)
  next
    case r
    with assms show ?thesis
      by (auto simp: update_geometry_def submittedOnce_def pending_def Let_def split: option.splits)
  next
    case p
    with assms show ?thesis
      by (auto simp: update_geometry_def submittedOnce_def pending_def Let_def split: option.splits)
  next
    case c
    with assms have empty: "w_tasks w = []" by (auto simp: submittedOnce_def)
    obtain thrown promise w' where cp: "createPrimitive n w = (thrown, promise, w')"
      by (cases "createPrimitive n w")
    note eff = createPrimitive_effect [OF cp]
    show ?thesis
    proof (cases thrown)
      case (Some e)
      with eff have "promise = None" by auto
      with eff empty have "w_tasks w' = []" by simp
      with c cp Some eff show ?thesis
        by (simp add: update_geometry_def submittedOnce_def pending_def Let_def)
    next
      case None
      show ?thesis
      proof (cases promise)
        case pn: None
        with eff empty have "w_tasks w' = []" by simp
        with c cp None pn eff show ?thesis
          by (auto simp: update_geometry_def submittedOnce_def pending_def Let_def split: option.splits)
      next
        case (Some t)
        with eff empty obtain req where "w_tasks w' = [(req, True)]" by auto
        with c cp None Some eff show ?thesis
          by (auto simp: update_geometry_def submittedOnce_def pending_def Let_def split: option.splits)
      qed
    qed
  qed
qed

lemma step_submittedOnce:
  assumes "submittedOnce w"
  shows "submittedOnce (snd (step w ev))"
proof (cases ev)
  case (Update n)
  with assms show ?thesis by (simp add: update_geometry_submittedOnce)
next
  case Destroy
  with assms show ?thesis by (auto simp: destroy_def submittedOnce_def pending_def Let_def)
next
  case (Resolve t result)
  show ?thesis
  proof (cases "pending w t")
    case False
    with assms Resolve show ?thesis by simp
  next
    case True
    with assms have "\<forall>t'. \<not> (t' < length (settle t (w_tasks w)) \<and> snd (settle t (w_tasks w) ! t'))"
      using settle_single [of "w_tasks w" t] by (auto simp: submittedOnce_def pending_def settle_length)
    with assms True Resolve show ?thesis
      by (auto simp: submittedOnce_def pending_def settle_length settled_promise)
  qed
next
  case (Reject t reason)
  show ?thesis
  proof (cases "pending w t")
    case False
    with assms Reject show ?thesis by simp
  next
    case True
    with assms have "\<forall>t'. \<not> (t' < length (settle t (w_tasks w)) \<and> snd (settle t (w_tasks w) ! t'))"
      using settle_single [of "w_tasks w" t] by (auto simp: submittedOnce_def pending_def settle_length)
    with assms True Reject show ?thesis
      by (auto simp: submittedOnce_def pending_def settle_length onRejected_keeps)
  qed
qed

lemma run_Cons_snd: "snd (run w (ev # evs)) = snd (run (snd (step w ev)) evs)"
  by (simp split: prod.splits)

lemma run_Cons_fst: "fst (run w (ev # evs)) = fst (step w ev) # fst (run (snd (step w ev)) evs)"
  by (simp split: prod.splits)

lemma run_submittedOnce: "submittedOnce w \<Longrightarrow> submittedOnce (snd (run w evs))"
proof (induction evs arbitrary: w)
  case Nil
  then show ?case by simp
next
  case (Cons ev evs)
  from Cons.prems have "submittedOnce (snd (step w ev))" by (rule step_submittedOnce)
  then have "submittedOnce (snd (run (snd (step w ev)) evs))" by (rule Cons.IH)
  then show ?case by (simp only: run_Cons_snd)
qed

lemma newWorld_submittedOnce: "submittedOnce (newWorld opts s)"
  by (simp add: submittedOnce_def newWorld_def pending_def)
lemma update_stuck_error:
  assumes "\<not> g_destroyed (w_content w)" and "\<not> g_ready (w_content w)"
    and "g_promise (w_content w) \<noteq> None" and "g_error (w_content w) = Some err"
  shows "update_geometry n w = (Some err, w\<lparr>w_content := (w_content w)\<lparr>g_error := None\<rparr>\<rparr>)"
  using assms by (auto simp: update_geometry_def Let_def)

lemma update_stuck_quiet:
  assumes "\<not> g_destroyed (w_content w)" and "\<not> g_ready (w_content w)"
    and "g_promise (w_content w) \<noteq> None" and "g_error (w_content w) = None"
  shows "update_geometry n w = (None, w)"
  using assms by (auto simp: update_geometry_def Let_def)

lemma run_stuck_quiet:
  assumes "\<not> g_destroyed (w_content w)" and "\<not> g_ready (w_content w)"
    and "g_promise (w_content w) \<noteq> None" and "g_error (w_content w) = None"
  shows "run w (map Update ns) = (replicate (length ns) None, w)"
  using assms by (induction ns) (simp_all add: update_stuck_quiet)

lemma reject_pending:
  assumes "submittedOnce w" and "pending w t" and "\<not> g_destroyed (w_content w)"
  shows "\<not> g_destroyed (w_content (snd (step w (Reject t reason)))) \<and>
         \<not> g_ready (w_content (snd (step w (Reject t reason)))) \<and>
         g_promise (w_content (snd (step w (Reject t reason)))) \<noteq> None \<and>
         g_error (w_content (snd (step w (Reject t reason)))) = Some (Raised reason)"
  using assms by (auto simp: submittedOnce_def pending_def onRejected_def isDestroyed_def)

text \<open>
  C3. Take any history of a content from its construction on, at the end of which a
  decode request is pending and the content is not destroyed, and let the request's
  promise reject with \<open>reason\<close>. Of the update calls that follow, the first throws
  \<open>reason\<close> and no later one throws anything; and after any number of them the content
  is not ready.
\<close>

theorem reject_raised_once:
  assumes "w = snd (run (newWorld opts s) evs)"
    and "pending w t" and "\<not> g_destroyed (w_content w)"
  shows "fst (run (snd (step w (Reject t reason))) (map Update (n # ns)))
           = Some (Raised reason) # replicate (length ns) None \<and>
         \<not> g_ready (w_content (snd (run (snd (step w (Reject t reason))) (map Update ms))))"
proof -
  let ?w1 = "snd (step w (Reject t reason))"
  let ?w2 = "?w1\<lparr>w_content := (w_content ?w1)\<lparr>g_error := None\<rparr>\<rparr>"
  have inv: "submittedOnce w"
    unfolding assms(1) by (rule run_submittedOnce [OF newWorld_submittedOnce])
  note r = reject_pending [OF inv assms(2,3), of reason]
  from r have first: "\<And>k. update_geometry k ?w1 = (Some (Raised reason), ?w2)"
    by (intro update_stuck_error) simp_all
  from r have quiet: "\<And>ks. run ?w2 (map Update ks) = (replicate (length ks) None, ?w2)"
    by (intro run_stuck_quiet) simp_all
  have a: "fst (run ?w1 (map Update (n # ns))) = Some (Raised reason) # replicate (length ns) None"
    using first quiet by simp
  have b: "\<not> g_ready (w_content (snd (run ?w1 (map Update ms))))"
  proof (cases ms)
    case Nil
    with r show ?thesis by simp
  next
    case (Cons k ks)
    with first quiet r show ?thesis by simp
  qed
  from a b show ?thesis by simp
qed

theorem reject_raised_once_witness:
  "fst (run (snd (step (snd (run (newWorld exampleOptions exampleStore) [Update 0]))
                   (Reject 0 ''worker failed'')))
            (map Update [1, 2, 3]))
     = [Some (Raised ''worker failed''), None, None] \<and>
   \<not> g_ready (w_content
        (snd (run (snd (step (snd (run (newWorld exampleOptions exampleStore) [Update 0]))
                          (Reject 0 ''worker failed'')))
                  (map Update [1, 2, 3]))))"
proof -
  let ?w = "snd (run (newWorld exampleOptions exampleStore :: (real, string) world) [Update 0])"
  have p: "pending ?w 0" by code_simp
  have d: "\<not> g_destroyed (w_content ?w)" by code_simp
  from reject_raised_once [OF refl p d, of "''worker failed''" 1 "[2, 3]" "[1, 2, 3]"]
  show ?thesis by simp
qed

lemma step_promise_defined:
  assumes "g_promise (w_content w) \<noteq> None"
  shows "g_promise (w_content (snd (step w ev))) \<noteq> None \<and>
         w_scheduleCalls (snd (step w ev)) = w_scheduleCalls w \<and>
         length (w_tasks (snd (step w ev))) = length (w_tasks w)"
proof (cases ev)
  case (Update k)
  with assms show ?thesis
    by (auto simp: update_geometry_def Let_def split: option.splits)
next
  case Destroy
  with assms show ?thesis by (auto simp: destroy_def Let_def)
next
  case (Resolve t result)
  with assms show ?thesis by (auto simp: settle_length settled_promise)
next
  case (Reject t reason)
  with assms show ?thesis by (auto simp: settle_length onRejected_keeps)
qed

lemma run_promise_defined:
  assumes "g_promise (w_content w) \<noteq> None"
  shows "g_promise (w_content (snd (run w evs))) \<noteq> None \<and>
         w_scheduleCalls (snd (run w evs)) = w_scheduleCalls w \<and>
         length (w_tasks (snd (run w evs))) = length (w_tasks w)"
  using assms
proof (induction evs arbitrary: w)
  case Nil
  then show ?case by simp
next
  case (Cons ev evs)
  note s = step_promise_defined [OF Cons.prems, of ev]
  then have "g_promise (w_content (snd (step w ev))) \<noteq> None" by simp
  from Cons.IH [OF this] s show ?case unfolding run_Cons_snd by simp
qed

lemma succeeds_andThen:
  assumes "succeeds P r" and "\<And>s. P s \<Longrightarrow> succeeds Q (f s)"
  shows "succeeds Q (andThen r f)"
proof (cases r)
  case (Inl a)
  with assms(1) show ?thesis by (simp add: succeeds_def)
next
  case (Inr s)
  with assms(1) have "P s" by (simp add: succeeds_def)
  then have "succeeds Q (f s)" by (rule assms(2))
  with Inr show ?thesis by (simp add: andThen_def)
qed

lemma succeeds_copyBoxes:
  assumes "localsOk l \<and> control (geometries l) = c"
  shows "succeeds (\<lambda>l. localsOk l \<and> control (geometries l) = c) (copyBoxes l)"
proof (cases "g_boxes (geometries l)")
  case None
  with assms show ?thesis by (simp add: succeeds_def copyBoxes_def)
next
  case (Some a0)
  with assms have "boxes l \<noteq> None" by (simp add: localsOk_def)
  then obtain a where a: "boxes l = Some a" by blast
  with assms have "boxBatchIds l \<noteq> None" by (simp add: localsOk_def)
  then obtain b where b: "boxBatchIds l = Some b" by blast
  from assms have ok: "localsOk l" and c: "control (geometries l) = c" by simp_all
  from Some a b have "copyBoxes l =
      Inr (l\<lparr>boxes := Some (fst (slice a (arrayBuffers l))),
             geometries := (geometries l)\<lparr>g_boxes := Some (fst (slice a (arrayBuffers l))),
                               g_boxBatchIds := Some (fst (slice b (snd (slice a (arrayBuffers l)))))\<rparr>,
             arrayBuffers := snd (slice b (snd (slice a (arrayBuffers l)))),
             boxBatchIds := Some (fst (slice b (snd (slice a (arrayBuffers l))))),
             l_length := l_length l + ta_length (fst (slice b (snd (slice a (arrayBuffers l)))))\<rparr>)"
    by (simp add: copyBoxes_def sliceOf_def Let_def split: prod.splits)
  moreover from ok c Some have "localsOk (l\<lparr>boxes := Some (fst (slice a (arrayBuffers l))),
             geometries := (geometries l)\<lparr>g_boxes := Some (fst (slice a (arrayBuffers l))),
                               g_boxBatchIds := Some (fst (slice b (snd (slice a (arrayBuffers l)))))\<rparr>,
             arrayBuffers := snd (slice b (snd (slice a (arrayBuffers l)))),
             boxBatchIds := Some (fst (slice b (snd (slice a (arrayBuffers l))))),
             l_length := l_length l + ta_length (fst (slice b (snd (slice a (arrayBuffers l)))))\<rparr>)"
    by (simp add: localsOk_def shapesOk_def)
  moreover from c have "control (geometries (l\<lparr>boxes := Some (fst (slice a (arrayBuffers l))),
             geometries := (geometries l)\<lparr>g_boxes := Some (fst (slice a (arrayBuffers l))),
                               g_boxBatchIds := Some (fst (slice b (snd (slice a (arrayBuffers l)))))\<rparr>,
             arrayBuffers := snd (slice b (snd (slice a (arrayBuffers l)))),
             boxBatchIds := Some (fst (slice b (snd (slice a (arrayBuffers l))))),
             l_length := l_length l + ta_length (fst (slice b (snd (slice a (arrayBuffers l)))))\<rparr>)) = c"
    by (simp add: control_def)
  ultimately show ?thesis by (simp add: succeeds_def)
qed

lemma succeeds_copyCylinders:
  assumes "localsOk l \<and> control (geometries l) = c"
  shows "succeeds (\<lambda>l. localsOk l \<and> control (geometries l) = c) (copyCylinders l)"
proof (cases "g_cylinders (geometries l)")
  case None
  with assms show ?thesis by (simp add: succeeds_def copyCylinders_def)
next
  case (Some a0)
  with assms have "cylinders l \<noteq> None" by (simp add: localsOk_def)
  then obtain a where a: "cylinders l = Some a" by blast
  with assms have "cylinderBatchIds l \<noteq> None" by (simp add: localsOk_def)
  then obtain b where b: "cylinderBatchIds l = Some b" by blast
  from assms have ok: "localsOk l" and c: "control (geometries l) = c" by simp_all
  from Some a b have "copyCylinders l =
      Inr (l\<lparr>cylinders := Some (fst (slice a (arrayBuffers l))),
             geometries := (geometries l)\<lparr>g_cylinders := Some (fst (slice a (arrayBuffers l))),
                               g_cylinderBatchIds := Some (fst (slice b (snd (slice a (arrayBuffers l)))))\<rparr>,
             arrayBuffers := snd (slice b (snd (slice a (arrayBuffers l)))),
             cylinderBatchIds := Some (fst (slice b (snd (slice a (arrayBuffers l))))),
             l_length := l_length l + ta_length (fst (slice b (snd (slice a (arrayBuffers l)))))\<rparr>)"
    by (simp add: copyCylinders_def sliceOf_def Let_def split: prod.splits)
  moreover from ok c Some have "localsOk (l\<lparr>cylinders := Some (fst (slice a (arrayBuffers l))),
             geometries := (geometries l)\<lparr>g_cylinders := Some (fst (slice a (arrayBuffers l))),
                               g_cylinderBatchIds := Some (fst (slice b (snd (slice a (arrayBuffers l)))))\<rparr>,
             arrayBuffers := snd (slice b (snd (slice a (arrayBuffers l)))),
             cylinderBatchIds := Some (fst (slice b (snd (slice a (arrayBuffers l))))),
             l_length := l_length l + ta_length (fst (slice b (snd (slice a (arrayBuffers l)))))\<rparr>)"
    by (simp add: localsOk_def shapesOk_def)
  moreover from c have "control (geometries (l\<lparr>cylinders := Some (fst (slice a (arrayBuffers l))),
             geometries := (geometries l)\<lparr>g_cylinders := Some (fst (slice a (arrayBuffers l))),
                               g_cylinderBatchIds := Some (fst (slice b (snd (slice a (arrayBuffers l)))))\<rparr>,
             arrayBuffers := snd (slice b (snd (slice a (arrayBuffers l)))),
             cylinderBatchIds := Some (fst (slice b (snd (slice a (arrayBuffers l))))),
             l_length := l_length l + ta_length (fst (slice b (snd (slice a (arrayBuffers l)))))\<rparr>)) = c"
    by (simp add: control_def)
  ultimately show ?thesis by (simp add: succeeds_def)
qed

lemma succeeds_copyEllipsoids:
  assumes "localsOk l \<and> control (geometries l) = c"
  shows "succeeds (\<lambda>l. localsOk l \<and> control (geometries l) = c) (copyEllipsoids l)"
proof (cases "g_ellipsoids (geometries l)")
  case None
  with assms show ?thesis by (simp add: succeeds_def copyEllipsoids_def)
next
  case (Some a0)
  with assms have "ellipsoids l \<noteq> None" by (simp add: localsOk_def)
  then obtain a where a: "ellipsoids l = Some a" by blast
  with assms have "ellipsoidBatchIds l \<noteq> None" by (simp add: localsOk_def)
  then obtain b where b: "ellipsoidBatchIds l = Some b" by blast
  from assms have ok: "localsOk l" and c: "control (geometries l) = c" by simp_all
  from Some a b have "copyEllipsoids l =
      Inr (l\<lparr>ellipsoids := Some (fst (slice a (arrayBuffers l))),
             geometries := (geometries l)\<lparr>g_ellipsoids := Some (fst (slice a (arrayBuffers l))),
                               g_ellipsoidBatchIds := Some (fst (slice b (snd (slice a (arrayBuffers l)))))\<rparr>,
             arrayBuffers := snd (slice b (snd (slice a (arrayBuffers l)))),
             ellipsoidBatchIds := Some (fst (slice b (snd (slice a (arrayBuffers l))))),
             l_length := l_length l + ta_length (fst (slice b (snd (slice a (arrayBuffers l)))))\<rparr>)"
    by (simp add: copyEllipsoids_def sliceOf_def Let_def split: prod.splits)
  moreover from ok c Some have "localsOk (l\<lparr>ellipsoids := Some (fst (slice a (arrayBuffers l))),
             geometries := (geometries l)\<lparr>g_ellipsoids := Some (fst (slice a (arrayBuffers l))),
                               g_ellipsoidBatchIds := Some (fst (slice b (snd (slice a (arrayBuffers l)))))\<rparr>,
             arrayBuffers := snd (slice b (snd (slice a (arrayBuffers l)))),
             ellipsoidBatchIds := Some (fst (slice b (snd (slice a (arrayBuffers l))))),
             l_length := l_length l + ta_length (fst (slice b (snd (slice a (arrayBuffers l)))))\<rparr>)"
    by (simp add: localsOk_def shapesOk_def)
  moreover from c have "control (geometries (l\<lparr>ellipsoids := Some (fst (slice a (arrayBuffers l))),
             geometries := (geometries l)\<lparr>g_ellipsoids := Some (fst (slice a (arrayBuffers l))),
                               g_ellipsoidBatchIds := Some (fst (slice b (snd (slice a (arrayBuffers l)))))\<rparr>,
             arrayBuffers := snd (slice b (snd (slice a (arrayBuffers l)))),
             ellipsoidBatchIds := Some (fst (slice b (snd (slice a (arrayBuffers l))))),
             l_length := l_length l + ta_length (fst (slice b (snd (slice a (arrayBuffers l)))))\<rparr>)) = c"
    by (simp add: control_def)
  ultimately show ?thesis by (simp add: succeeds_def)
qed

lemma succeeds_copySpheres:
  assumes "localsOk l \<and> control (geometries l) = c"
  shows "succeeds (\<lambda>l. localsOk l \<and> control (geometries l) = c) (copySpheres l)"
proof (cases "g_spheres (geometries l)")
  case None
  with assms show ?thesis by (simp add: succeeds_def copySpheres_def)
next
  case (Some a0)
  with assms have "spheres l \<noteq> None" by (simp add: localsOk_def)
  then obtain a where a: "spheres l = Some a" by blast
  with assms have "sphereBatchIds l \<noteq> None" by (simp add: localsOk_def)
  then obtain b where b: "sphereBatchIds l = Some b" by blast
  from assms have ok: "localsOk l" and c: "control (geometries l) = c" by simp_all
  from Some a b have "copySpheres l =
      Inr (l\<lparr>spheres := Some (fst (slice a (arrayBuffers l))),
             geometries := (geometries l)\<lparr>g_sphere := Some (fst (slice a (arrayBuffers l))),
                               g_sphereBatchIds := Some (fst (slice b (snd (slice a (arrayBuffers l)))))\<rparr>,
             arrayBuffers := snd (slice b (snd (slice a (arrayBuffers l)))),
             sphereBatchIds := Some (fst (slice b (snd (slice a (arrayBuffers l))))),
             l_length := l_length l + ta_length (fst (slice b (snd (slice a (arrayBuffers l)))))\<rparr>)"
    by (simp add: copySpheres_def sliceOf_def Let_def split: prod.splits)
  moreover from ok c Some have "localsOk (l\<lparr>spheres := Some (fst (slice a (arrayBuffers l))),
             geometries := (geometries l)\<lparr>g_sphere := Some (fst (slice a (arrayBuffers l))),
                               g_sphereBatchIds := Some (fst (slice b (snd (slice a (arrayBuffers l)))))\<rparr>,
             arrayBuffers := snd (slice b (snd (slice a (arrayBuffers l)))),
             sphereBatchIds := Some (fst (slice b (snd (slice a (arrayBuffers l))))),
             l_length := l_length l + ta_length (fst (slice b (snd (slice a (arrayBuffers l)))))\<rparr>)"
    by (simp add: localsOk_def shapesOk_def)
  moreover from c have "control (geometries (l\<lparr>spheres := Some (fst (slice a (arrayBuffers l))),
             geometries := (geometries l)\<lparr>g_sphere := Some (fst (slice a (arrayBuffers l))),
                               g_sphereBatchIds := Some (fst (slice b (snd (slice a (arrayBuffers l)))))\<rparr>,
             arrayBuffers := snd (slice b (snd (slice a (arrayBuffers l)))),
             sphereBatchIds := Some (fst (slice b (snd (slice a (arrayBuffers l))))),
             l_length := l_length l + ta_length (fst (slice b (snd (slice a (arrayBuffers l)))))\<rparr>)) = c"
    by (simp add: control_def)
  ultimately show ?thesis by (simp add: succeeds_def)
qed

lemma succeeds_colorTable:
  assumes "localsOk l \<and> control (geometries l) = c"
  shows "succeeds (\<lambda>l. (localsOk l \<and> control (geometries l) = c) \<and>
                   g_batchTableColors (geometries l) \<noteq> None) (colorTable l)"
proof -
  from assms have "g_batchTable (geometries l) \<noteq> None" by (simp add: localsOk_def shapesOk_def)
  then obtain bt where bt: "g_batchTable (geometries l) = Some bt" by blast
  with assms show ?thesis
    by (simp add: succeeds_def colorTable_def localsOk_def shapesOk_def control_def)
qed

lemma succeeds_packContext:
  assumes "(localsOk l \<and> control (geometries l) = c) \<and> g_batchTableColors (geometries l) \<noteq> None"
  shows "succeeds (\<lambda>l. localsOk l \<and> control (geometries l) = c \<and>
                   g_batchTableColors (geometries l) \<noteq> None \<and>
                   g_packedBuffer (geometries l) \<noteq> None) (packContext l)"
proof -
  from assms have "g_center (geometries l) \<noteq> None" "g_modelMatrix (geometries l) \<noteq> None"
    by (simp_all add: localsOk_def shapesOk_def)
  then obtain ce mm where "g_center (geometries l) = Some ce" "g_modelMatrix (geometries l) = Some mm"
    by blast
  with assms show ?thesis
    by (simp add: succeeds_def packContext_def packBuffer_def Let_def localsOk_def shapesOk_def
          control_def)
qed

lemma succeeds_copyAndPack:
  assumes "localsOk l" and "control (geometries l) = c"
  shows "succeeds (\<lambda>l. localsOk l \<and> control (geometries l) = c \<and>
                   g_batchTableColors (geometries l) \<noteq> None \<and>
                   g_packedBuffer (geometries l) \<noteq> None) (copyAndPack l)"
proof -
  have start: "localsOk (l\<lparr>l_length := 0\<rparr>) \<and> control (geometries (l\<lparr>l_length := 0\<rparr>)) = c"
    using assms by (simp add: localsOk_def)
  show ?thesis
    unfolding copyAndPack_def
    by (rule succeeds_andThen [OF succeeds_andThen [OF succeeds_andThen [OF succeeds_andThen
          [OF succeeds_andThen [OF succeeds_copyBoxes [OF start] succeeds_copyCylinders]
            succeeds_copyEllipsoids] succeeds_copySpheres] succeeds_colorTable]
          succeeds_packContext])
qed

lemma shapeBuffers_Some:
  "(shape \<noteq> None \<longrightarrow> batchIds \<noteq> None) \<Longrightarrow> \<exists>t. shapeBuffers shape batchIds = Some t"
  by (cases shape; cases batchIds) (simp_all add: shapeBuffers_def)

lemma buildRequest_localsOk:
  assumes "localsOk l"
  shows "\<exists>req. buildRequest l (Some colors) (Some packed) = Some req"
proof -
  from assms obtain t1 where t1: "shapeBuffers (boxes l) (boxBatchIds l) = Some t1"
    using shapeBuffers_Some [of "boxes l" "boxBatchIds l"] by (auto simp: localsOk_def)
  from assms obtain t2 where t2: "shapeBuffers (cylinders l) (cylinderBatchIds l) = Some t2"
    using shapeBuffers_Some [of "cylinders l" "cylinderBatchIds l"] by (auto simp: localsOk_def)
  from assms obtain t3 where t3: "shapeBuffers (ellipsoids l) (ellipsoidBatchIds l) = Some t3"
    using shapeBuffers_Some [of "ellipsoids l" "ellipsoidBatchIds l"] by (auto simp: localsOk_def)
  from assms obtain t4 where t4: "shapeBuffers (spheres l) (sphereBatchIds l) = Some t4"
    using shapeBuffers_Some [of "spheres l" "sphereBatchIds l"] by (auto simp: localsOk_def)
  from t1 t2 t3 t4 show ?thesis by (simp add: buildRequest_def)
qed

lemma createPrimitive_unstarted:
  assumes "unstarted w"
  shows "\<exists>w'. createPrimitive n w
              = (None, if maximumActiveTasks \<le> n then None else Some 0, w') \<and>
           control (w_content w')
             = (False, False, None, None, if maximumActiveTasks \<le> n then None else Some 0, None) \<and>
           shapesOk (w_content w') \<and>
           g_batchTableColors (w_content w') \<noteq> None \<and>
           g_packedBuffer (w_content w') \<noteq> None \<and>
           w_scheduleCalls w' = Suc (w_scheduleCalls w) \<and>
           (if maximumActiveTasks \<le> n then w_tasks w' = []
            else \<exists>req. w_tasks w' = [(req, True)])"
proof -
  let ?g = "w_content w"
  let ?l = "\<lparr>boxes = g_boxes ?g, boxBatchIds = g_boxBatchIds ?g,
            cylinders = g_cylinders ?g, cylinderBatchIds = g_cylinderBatchIds ?g,
            ellipsoids = g_ellipsoids ?g, ellipsoidBatchIds = g_ellipsoidBatchIds ?g,
            spheres = g_spheres ?g, sphereBatchIds = g_sphereBatchIds ?g,
            l_length = 0, geometries = ?g, arrayBuffers = w_store w\<rparr>"
  let ?r = "if g_batchTableColors ?g = None then copyAndPack ?l else Inr ?l"
  let ?c = "(False, False, None, None, None, None) ::
            bool \<times> bool \<times> nat option \<times> 'b jsError option \<times> nat option \<times> 'a Vector3DTilePrimitive option"
  from assms have c: "control ?g = ?c" and tasks: "w_tasks w = []" and ok: "shapesOk ?g"
    and both: "g_batchTableColors ?g \<noteq> None \<longrightarrow> g_packedBuffer ?g \<noteq> None"
    by (simp_all add: unstarted_def)
  from c have prim: "g_primitive ?g = None" and vp: "g_verticesPromise ?g = None"
    by (simp_all add: control_def)
  have lok: "localsOk ?l" using ok by (simp add: localsOk_def shapesOk_def)
  have lc: "control (geometries ?l) = ?c" using c by simp
  have "succeeds (\<lambda>l. localsOk l \<and> control (geometries l) = ?c \<and>
                   g_batchTableColors (geometries l) \<noteq> None \<and>
                   g_packedBuffer (geometries l) \<noteq> None) ?r"
  proof (cases "g_batchTableColors ?g = None")
    case True
    then show ?thesis using succeeds_copyAndPack [OF lok lc] by simp
  next
    case False
    then obtain cs0 where cs0: "g_batchTableColors ?g = Some cs0" by blast
    with both obtain pb0 where pb0: "g_packedBuffer ?g = Some pb0" by auto
    from cs0 pb0 lok lc show ?thesis by (simp add: succeeds_def)
  qed
  then obtain l' where r: "?r = Inr l'" and l'ok: "localsOk l'"
    and l'c: "control (geometries l') = ?c"
    and colors: "g_batchTableColors (geometries l') \<noteq> None"
    and packed: "g_packedBuffer (geometries l') \<noteq> None"
    by (cases ?r) (auto simp: succeeds_def)
  from colors packed obtain cs pb where cs: "g_batchTableColors (geometries l') = Some cs"
    and pb: "g_packedBuffer (geometries l') = Some pb" by blast
  from buildRequest_localsOk [OF l'ok, of cs pb] obtain req where
    req: "buildRequest l' (Some cs) (Some pb) = Some req" by blast
  have shapes': "shapesOk (geometries l')" using l'ok by (simp add: localsOk_def)
  have cp: "createPrimitive n w =
      (None, fst (scheduleTask n req []),
       w\<lparr>w_content := (geometries l')\<lparr>g_verticesPromise := fst (scheduleTask n req [])\<rparr>,
         w_store := arrayBuffers l',
         w_tasks := snd (scheduleTask n req []),
         w_scheduleCalls := Suc (w_scheduleCalls w)\<rparr>)"
    unfolding createPrimitive_def Let_def
    using prim vp r cs pb req tasks by (simp split: prod.splits)
  show ?thesis
  proof (cases "maximumActiveTasks \<le> n")
    case True
    with cp l'c shapes' cs pb show ?thesis
      by (simp add: scheduleTask_def control_def shapesOk_def)
  next
    case False
    with cp l'c shapes' cs pb show ?thesis
      by (simp add: scheduleTask_def control_def shapesOk_def)
  qed
qed

lemma update_deferred:
  assumes "unstarted w" and "maximumActiveTasks \<le> n"
  shows "fst (update_geometry n w) = None \<and> unstarted (snd (update_geometry n w)) \<and>
         w_scheduleCalls (snd (update_geometry n w)) = Suc (w_scheduleCalls w)"
proof -
  from createPrimitive_unstarted [OF assms(1), of n] assms(2) obtain w' where
    cp: "createPrimitive n w = (None, None, w')"
    and c': "control (w_content w') = (False, False, None, None, None, None)"
    and s': "shapesOk (w_content w')"
    and p': "g_packedBuffer (w_content w') \<noteq> None"
    and n': "w_scheduleCalls w' = Suc (w_scheduleCalls w)"
    and t': "w_tasks w' = []"
    by auto
  from assms(1) have c: "control (w_content w) = (False, False, None, None, None, None)"
    by (simp add: unstarted_def)
  have same: "w'\<lparr>w_content := (w_content w')\<lparr>g_promise := None\<rparr>\<rparr> = w'"
    using c' by (simp add: control_def)
  have "update_geometry n w = (None, w')"
    using c c' cp same by (simp add: update_geometry_def Let_def control_def)
  with c' s' p' n' t' show ?thesis by (simp add: unstarted_def)
qed

lemma update_submits:
  assumes "unstarted w" and "n < maximumActiveTasks"
  shows "fst (update_geometry n w) = None \<and>
         length (w_tasks (snd (update_geometry n w))) = 1 \<and>
         pending (snd (update_geometry n w)) 0 \<and>
         g_promise (w_content (snd (update_geometry n w))) = Some 0 \<and>
         w_scheduleCalls (snd (update_geometry n w)) = Suc (w_scheduleCalls w)"
proof -
  from createPrimitive_unstarted [OF assms(1), of n] assms(2) obtain w' req where
    cp: "createPrimitive n w = (None, Some 0, w')"
    and c': "control (w_content w') = (False, False, None, None, Some 0, None)"
    and n': "w_scheduleCalls w' = Suc (w_scheduleCalls w)"
    and t': "w_tasks w' = [(req, True)]"
    by auto
  from assms(1) have c: "control (w_content w) = (False, False, None, None, None, None)"
    by (simp add: unstarted_def)
  have "update_geometry n w = (None, w'\<lparr>w_content := (w_content w')\<lparr>g_promise := Some 0\<rparr>\<rparr>)"
    using c c' cp by (simp add: update_geometry_def Let_def control_def)
  with n' t' show ?thesis by (simp add: pending_def)
qed

lemma run_deferred:
  assumes "unstarted w" and "\<forall>k\<in>set ns. maximumActiveTasks \<le> k"
  shows "fst (run w (map Update ns)) = replicate (length ns) None \<and>
         unstarted (snd (run w (map Update ns))) \<and>
         w_scheduleCalls (snd (run w (map Update ns))) = w_scheduleCalls w + length ns"
  using assms
proof (induction ns arbitrary: w)
  case Nil
  then show ?case by simp
next
  case (Cons k ks)
  from Cons.prems have k: "maximumActiveTasks \<le> k" and ks: "\<forall>k\<in>set ks. maximumActiveTasks \<le> k"
    by simp_all
  note u = update_deferred [OF Cons.prems(1) k]
  then have "unstarted (snd (update_geometry k w))" by simp
  from Cons.IH [OF this ks] u show ?case
    by (simp add: run_Cons_fst run_Cons_snd del: run.simps)
qed

lemma run_append_snd: "snd (run w (evs @ evs')) = snd (run (snd (run w evs)) evs')"
proof (induction evs arbitrary: w)
  case Nil
  show ?case by simp
next
  case (Cons ev evs)
  have "snd (run w ((ev # evs) @ evs')) = snd (run (snd (step w ev)) (evs @ evs'))"
    by (simp only: append_Cons run_Cons_snd)
  also have "\<dots> = snd (run (snd (run (snd (step w ev)) evs)) evs')" by (rule Cons.IH)
  also have "\<dots> = snd (run (snd (run w (ev # evs))) evs')" by (simp only: run_Cons_snd)
  finally show ?case .
qed

lemma newWorld_unstarted: "wellFormed opts \<Longrightarrow> unstarted (newWorld opts s)"
  by (simp add: unstarted_def newWorld_def Vector3DTileGeometry_def control_def shapesOk_def
        wellFormed_def split: option.splits)

text \<open>
  C4. Over any history of a content from its construction on, the task processor has
  accepted at most one decode request from it. Once one is accepted, whatever happens
  later (updates, the settling of the request, destruction), there is still that one
  request and \<^verbatim>\<open>scheduleTask\<close> is not called again. And when the options are well
  formed and the processor is at capacity for a number of update calls, none of them
  gets a request accepted and each calls \<^verbatim>\<open>scheduleTask\<close> again; the first update
  call that finds capacity gets the one request accepted.
\<close>

theorem one_request_ever:
  "length (w_tasks (snd (run (newWorld opts s :: ('a::zero, 'e) world) evs))) \<le> 1 \<and>
   (w_tasks (snd (run (newWorld opts s :: ('a, 'e) world) evs)) \<noteq> [] \<longrightarrow>
      length (w_tasks (snd (run (newWorld opts s :: ('a, 'e) world) (evs @ evs')))) = 1 \<and>
      w_scheduleCalls (snd (run (newWorld opts s :: ('a, 'e) world) (evs @ evs')))
        = w_scheduleCalls (snd (run (newWorld opts s :: ('a, 'e) world) evs))) \<and>
   (wellFormed opts \<and> (\<forall>k\<in>set ns. maximumActiveTasks \<le> k) \<and> m < maximumActiveTasks \<longrightarrow>
      w_tasks (snd (run (newWorld opts s :: ('a, 'e) world) (map Update ns))) = [] \<and>
      w_scheduleCalls (snd (run (newWorld opts s :: ('a, 'e) world) (map Update ns))) = length ns \<and>
      length (w_tasks (snd (run (newWorld opts s :: ('a, 'e) world) (map Update ns @ [Update m])))) = 1 \<and>
      w_scheduleCalls (snd (run (newWorld opts s :: ('a, 'e) world) (map Update ns @ [Update m])))
        = Suc (length ns))"
proof -
  let ?w = "snd (run (newWorld opts s :: ('a, 'e) world) evs)"
  have inv: "submittedOnce ?w" by (rule run_submittedOnce [OF newWorld_submittedOnce])
  then have first: "length (w_tasks ?w) \<le> 1" by (simp add: submittedOnce_def)
  have second: "length (w_tasks (snd (run (newWorld opts s :: ('a, 'e) world) (evs @ evs')))) = 1 \<and>
      w_scheduleCalls (snd (run (newWorld opts s :: ('a, 'e) world) (evs @ evs')))
        = w_scheduleCalls ?w"
    if ne: "w_tasks ?w \<noteq> []"
  proof -
    from inv ne have p: "g_promise (w_content ?w) \<noteq> None" by (simp add: submittedOnce_def)
    from inv ne have one: "length (w_tasks ?w) = 1"
      by (cases "w_tasks ?w") (simp_all add: submittedOnce_def)
    note later = run_promise_defined [OF p, of evs']
    from later one show ?thesis by (simp add: run_append_snd)
  qed
  have third: "w_tasks (snd (run (newWorld opts s :: ('a, 'e) world) (map Update ns))) = [] \<and>
      w_scheduleCalls (snd (run (newWorld opts s :: ('a, 'e) world) (map Update ns))) = length ns \<and>
      length (w_tasks (snd (run (newWorld opts s :: ('a, 'e) world) (map Update ns @ [Update m])))) = 1 \<and>
      w_scheduleCalls (snd (run (newWorld opts s :: ('a, 'e) world) (map Update ns @ [Update m])))
        = Suc (length ns)"
    if a: "wellFormed opts \<and> (\<forall>k\<in>set ns. maximumActiveTasks \<le> k) \<and> m < maximumActiveTasks"
  proof -
    from a have u0: "unstarted (newWorld opts s :: ('a, 'e) world)" by (simp add: newWorld_unstarted)
    from a have ns: "\<forall>k\<in>set ns. maximumActiveTasks \<le> k" and m: "m < maximumActiveTasks"
      by simp_all
    let ?v = "snd (run (newWorld opts s :: ('a, 'e) world) (map Update ns))"
    note d = run_deferred [OF u0 ns]
    from d have t: "w_tasks ?v = []" by (simp add: unstarted_def)
    from d have c: "w_scheduleCalls ?v = length ns" by (simp add: newWorld_def)
    from d have u: "unstarted ?v" by simp
    note sub = update_submits [OF u m]
    have last: "snd (run (newWorld opts s :: ('a, 'e) world) (map Update ns @ [Update m]))
                  = snd (update_geometry m ?v)"
      by (simp add: run_append_snd split: prod.splits)
    from sub last c t show ?thesis by simp
  qed
  from first second third show ?thesis by simp
qed

theorem one_request_ever_witness:
  "length (w_tasks (snd (run (newWorld exampleOptions exampleStore :: (real, string) world)
                          [Update 0, Update 3, Resolve 0 exampleResult]))) \<le> 1 \<and>
   length (w_tasks (snd (run (newWorld exampleOptions exampleStore :: (real, string) world)
                          ([Update 0, Update 3, Resolve 0 exampleResult] @ [Update 0, Update 1]))))
     = 1 \<and>
   w_scheduleCalls (snd (run (newWorld exampleOptions exampleStore :: (real, string) world)
                          ([Update 0, Update 3, Resolve 0 exampleResult] @ [Update 0, Update 1])))
     = w_scheduleCalls (snd (run (newWorld exampleOptions exampleStore :: (real, string) world)
                               [Update 0, Update 3, Resolve 0 exampleResult])) \<and>
   w_tasks (snd (run (newWorld exampleOptions exampleStore :: (real, string) world)
                   (map Update [5, 7]))) = [] \<and>
   w_scheduleCalls (snd (run (newWorld exampleOptions exampleStore :: (real, string) world)
                           (map Update [5, 7]))) = length [5 :: nat, 7] \<and>
   length (w_tasks (snd (run (newWorld exampleOptions exampleStore :: (real, string) world)
                          (map Update [5, 7] @ [Update 2])))) = 1 \<and>
   w_scheduleCalls (snd (run (newWorld exampleOptions exampleStore :: (real, string) world)
                           (map Update [5, 7] @ [Update 2]))) = Suc (length [5 :: nat, 7])"
proof -
  have accepted: "w_tasks (snd (run (newWorld exampleOptions exampleStore :: (real, string) world)
                                 [Update 0, Update 3, Resolve 0 exampleResult])) \<noteq> []"
    by code_simp
  have deferred: "wellFormed exampleOptions \<and> (\<forall>k\<in>set [5, 7]. maximumActiveTasks \<le> k) \<and>
                  2 < maximumActiveTasks"
    by (simp add: wellFormed_def exampleOptions_def maximumActiveTasks_def)
  from accepted deferred
    one_request_ever [where ?'e = string, of exampleOptions exampleStore
      "[Update 0, Update 3, Resolve 0 exampleResult]" "[Update 0, Update 1]" "[5, 7]" 2]
  show ?thesis by blast
qed

end
